theory Spec2Isabelle
  imports Complex_Main
begin

section \<open>Values, rows and the outside world\<close>

text \<open>
  The repository holds four versions of one Express server, each a program of its own:
  \<^item> \<^verbatim>\<open>src/unnamed/part_000\<close>: screenshot, critique, e-mail;
  \<^item> \<^verbatim>\<open>src/unnamed/part_001\<close>, first file: \<^verbatim>\<open>POST /screenshot\<close> whose
    \<^verbatim>\<open>getScreenshot\<close> classifies capture errors;
  \<^item> \<^verbatim>\<open>src/app.mjs\<close>: \<^verbatim>\<open>POST /screenshot\<close> with the \<^verbatim>\<open>isPublicUrl\<close> gate;
  \<^item> \<^verbatim>\<open>src/unnamed/part_001\<close>, second file: \<^verbatim>\<open>POST /roast\<close> and the
    \<^verbatim>\<open>GET /roasts\<close> routes over the record store.
  Functions that occur in several versions carry a suffix: \<open>_cw\<close> for the first file of
  \<^verbatim>\<open>part_001\<close> (capture-website with classification), \<open>_app\<close> for \<^verbatim>\<open>app.mjs\<close>; the
  functions of the second file of \<^verbatim>\<open>part_001\<close> keep their names.
\<close>

subsection \<open>JavaScript values\<close>

text \<open>
  A field of \<^verbatim>\<open>req.body\<close> and the result of \<^verbatim>\<open>JSON.parse\<close>: a JSON value, or
  \<^verbatim>\<open>undefined\<close> when the field is absent. A string is the list of its characters, so
  \<open>length\<close> is JavaScript's \<^verbatim>\<open>.length\<close>.
\<close>

datatype jsval =
    JUndefined
  | JNull
  | JBool bool
  | JNum rat
  | JStr string
  | JArr "jsval list"
  | JObj "(string \<times> jsval) list"

text \<open>The truth value JavaScript gives to \<^verbatim>\<open>!url\<close>, \<^verbatim>\<open>visitorId || null\<close>.\<close>

fun truthy :: "jsval \<Rightarrow> bool" where
  "truthy JUndefined = False"
| "truthy JNull = False"
| "truthy (JBool b) = b"
| "truthy (JNum n) = (n \<noteq> 0)"
| "truthy (JStr s) = (s \<noteq> [])"
| "truthy (JArr xs) = True"
| "truthy (JObj kvs) = True"

text \<open>\<^verbatim>\<open>haystack.includes(needle)\<close> on strings.\<close>

fun str_includes :: "string \<Rightarrow> string \<Rightarrow> bool" where
  "str_includes [] needle = (needle = [])"
| "str_includes (c # cs) needle =
     (take (length needle) (c # cs) = needle \<or> str_includes cs needle)"

subsection \<open>Rows of the \<^verbatim>\<open>roasts\<close> table\<close>

type_synonym bytes = string

record row =
  row_id :: string
  row_url :: string
  roast_json :: jsval
  screenshot_url :: string
  visitor_id :: jsval
  created_at :: nat

subsection \<open>External services\<close>

text \<open>
  An error thrown by the OpenAI client: \<^verbatim>\<open>error.message\<close>, and \<^verbatim>\<open>error.response\<close>
  (status, data, headers) when the provider answered with an error.
\<close>

datatype provider_error =
  ProviderError (err_message: string) (err_response: "(nat \<times> string \<times> string) option")

text \<open>The result of \<^verbatim>\<open>fetch\<close>: a rejection, or a response with its \<^verbatim>\<open>ok\<close> flag and body.\<close>

datatype fetch_result = FetchRejected string | FetchResponse bool bytes

text \<open>
  Everything the handlers call and do not define: libraries, the network, the
  environment. Each is a function of what the source passes to it; a call that can throw
  or reject returns \<open>Inl\<close> with the error's message (or \<open>None\<close>).
  \<^item> \<open>isURL\<close>: \<^verbatim>\<open>validator.isURL(str, {require_protocol: true, protocols: ["http",
    "https"], require_valid_protocol: true})\<close> on a string;
  \<^item> \<open>url_hostname\<close>: \<^verbatim>\<open>new URL(s).hostname\<close>, \<open>None\<close> when the constructor throws;
  \<^item> \<open>dns_lookup\<close>: \<^verbatim>\<open>(await dns.promises.lookup(hostname)).address\<close>;
  \<^item> \<open>ipaddr_parse_ok\<close>, \<open>ipaddr_range\<close>, \<open>ipaddr_isPrivate\<close>: \<^verbatim>\<open>ipaddr.parse(address)\<close>
    and, on the parsed address, \<^verbatim>\<open>range()\<close> and \<^verbatim>\<open>isPrivate()\<close>; the latter is \<open>None\<close>
    when the call throws (as it does when the address object has no such method);
  \<^item> \<open>captureWebsite\<close>: \<^verbatim>\<open>captureWebsite.base64(url, options)\<close>;
  \<^item> \<open>openai_create\<close>: \<^verbatim>\<open>response.choices[0].message.content\<close> of
    \<^verbatim>\<open>openai.chat.completions.create\<close> for the image, the content possibly \<^verbatim>\<open>null\<close>;
  \<^item> \<open>JSON_parse\<close>: \<^verbatim>\<open>JSON.parse\<close> on a string;
  \<^item> \<open>apiFlashKey\<close>: \<^verbatim>\<open>process.env.APIFLASH_API_KEY\<close>, the empty string when unset;
  \<^item> \<open>apiflash_fetch\<close>: \<^verbatim>\<open>fetch(apiUrl)\<close> for the target URL;
  \<^item> \<open>sharp\<close>: the resize and WebP pipeline; \<open>base64\<close>: \<^verbatim>\<open>buffer.toString("base64")\<close>;
  \<^item> \<open>randomUUID\<close>: \<^verbatim>\<open>crypto.randomUUID()\<close>;
  \<^item> \<open>storage_upload\<close>: the \<^verbatim>\<open>{data, error}\<close> of the Supabase storage upload, as
    \<^verbatim>\<open>error.message\<close> or \<^verbatim>\<open>data.path\<close>; \<open>getPublicUrl\<close>: the public URL of a path;
  \<^item> \<open>db_insert_error\<close>, \<open>db_select_error\<close>: the \<^verbatim>\<open>error\<close> the database reports for an
    insert or a query, \<open>None\<close> when it reports none; \<open>db_now\<close>: the database clock;
  \<^item> \<open>whitelist\<close>: the addresses of \<^verbatim>\<open>RATE_LIMIT_WHITELIST\<close>, split and trimmed.
\<close>

record world =
  isURL :: "string \<Rightarrow> bool"
  isUUID :: "string \<Rightarrow> bool"
  url_hostname :: "string \<Rightarrow> string option"
  dns_lookup :: "string \<Rightarrow> string option"
  ipaddr_parse_ok :: "string \<Rightarrow> bool"
  ipaddr_range :: "string \<Rightarrow> string"
  ipaddr_isPrivate :: "string \<Rightarrow> bool option"
  captureWebsite :: "string \<Rightarrow> string + string"
  openai_create :: "string \<Rightarrow> provider_error + string option"
  JSON_parse :: "string \<Rightarrow> string + jsval"
  apiFlashKey :: string
  apiflash_fetch :: "string \<Rightarrow> fetch_result"
  sharp :: "bytes \<Rightarrow> string + bytes"
  base64 :: "bytes \<Rightarrow> string"
  randomUUID :: string
  storage_upload :: "string \<Rightarrow> bytes \<Rightarrow> string + string"
  getPublicUrl :: "string \<Rightarrow> string"
  db_insert_error :: "row \<Rightarrow> string option"
  db_select_error :: "string option"
  db_now :: nat
  whitelist :: "string list"

subsection \<open>What a handler does\<close>

text \<open>The calls a handler issues to other hosts, in the order it starts them.\<close>

datatype call =
    DnsLookup string
  | Capture string
  | ApiFlash string
  | OpenAI string
  | StorageUpload string bytes
  | DbInsert row
  | DbSelect

text \<open>One argument of a \<^verbatim>\<open>console.error\<close> line.\<close>

datatype logval = LStr string | LNum nat

datatype body =
    ErrorBody string
  | StatusOk
  | AnalysisBody jsval string
  | RowBody row
  | RowsBody "row list"

datatype response = Response (status: nat) (headers: "(string \<times> nat) list") (payload: body)

text \<open>
  The outcome of a handler: the response it sends (\<open>None\<close> when it throws outside its
  \<^verbatim>\<open>try\<close> block and so sends none itself), the calls issued and the \<^verbatim>\<open>console.error\<close>
  lines written. The progress lines of \<^verbatim>\<open>console.log\<close> are not part of the model.
\<close>

record outcome =
  reply :: "response option"
  calls :: "call list"
  logs :: "logval list list"

record roast_outcome = outcome +
  db :: "row list"

definition json_error :: "nat \<Rightarrow> string \<Rightarrow> response" where
  "json_error code msg = Response code [] (ErrorBody msg)"

text \<open>\<^verbatim>\<open>JSON.parse(analysisResult)\<close>: a \<^verbatim>\<open>null\<close> content is coerced to the text
  \<^verbatim>\<open>"null"\<close> and parses to \<^verbatim>\<open>null\<close>.\<close>

definition parse_content :: "world \<Rightarrow> string option \<Rightarrow> string + jsval" where
  "parse_content w c = (case c of None \<Rightarrow> Inr JNull | Some s \<Rightarrow> JSON_parse w s)"

section \<open>\<^verbatim>\<open>src/app.mjs\<close>: \<^verbatim>\<open>POST /screenshot\<close> behind the address gate\<close>

definition validURL :: "world \<Rightarrow> string \<Rightarrow> bool" where
  "validURL w str = isURL w str"

text \<open>
  \<^verbatim>\<open>isPublicUrl\<close>: the result and the lookups issued. Every throw inside the
  \<^verbatim>\<open>try\<close> (the URL constructor, the lookup, \<^verbatim>\<open>ipaddr.parse\<close>, \<^verbatim>\<open>isPrivate\<close>) is caught and
  gives \<^verbatim>\<open>false\<close>. The conjunction is evaluated left to right, so \<^verbatim>\<open>isPrivate()\<close> is
  called only for a range that is neither \<^verbatim>\<open>"unspecified"\<close> nor \<^verbatim>\<open>"loopback"\<close>.
\<close>

definition isPublicUrl :: "world \<Rightarrow> string \<Rightarrow> bool \<times> call list" where
  "isPublicUrl w urlToTest =
     (case url_hostname w urlToTest of
        None \<Rightarrow> (False, [])
      | Some hostname \<Rightarrow>
          (case dns_lookup w hostname of
             None \<Rightarrow> (False, [DnsLookup hostname])
           | Some address \<Rightarrow>
               (if \<not> ipaddr_parse_ok w address then (False, [DnsLookup hostname])
                else if ipaddr_range w address = ''unspecified'' then (False, [DnsLookup hostname])
                else if ipaddr_range w address = ''loopback'' then (False, [DnsLookup hostname])
                else (case ipaddr_isPrivate w address of
                        None \<Rightarrow> (False, [DnsLookup hostname])
                      | Some p \<Rightarrow> (\<not> p, [DnsLookup hostname])))))"

definition analysis_failed_app :: string where
  "analysis_failed_app = ''Failed to analyze screenshot with OpenAI Vision.''"

text \<open>\<^verbatim>\<open>analyzeImage\<close> of \<^verbatim>\<open>app.mjs\<close>: the log lines, and the content or the rethrown
  error's message.\<close>

definition analyzeImage_app :: "world \<Rightarrow> string \<Rightarrow> logval list list \<times> (string + string option)" where
  "analyzeImage_app w base64Image =
     (case openai_create w base64Image of
        Inr content \<Rightarrow> ([], Inr content)
      | Inl e \<Rightarrow>
          ([[LStr ''Failed to analyze screenshot with OpenAI Vision:'', LStr (err_message e)]],
           Inl analysis_failed_app))"

definition capture_failed_app :: string where
  "capture_failed_app = ''Failed to capture screenshot with capture-website.''"

definition getScreenshot_app :: "world \<Rightarrow> string \<Rightarrow> logval list list \<times> (string + string)" where
  "getScreenshot_app w u =
     (case captureWebsite w u of
        Inr base64Image \<Rightarrow> ([], Inr base64Image)
      | Inl m \<Rightarrow>
          ([[LStr ''Error making capture-website call:'', LStr m]], Inl capture_failed_app))"

definition url_required :: string where
  "url_required = ''URL is required.''"

definition invalid_url_format :: string where
  "invalid_url_format =
     ''Invalid URL format. A valid URL (including http:// or https://) is required.''"

definition not_public :: string where
  "not_public = ''The provided URL is not publicly accessible or is a private IP.''"

definition unexpected_later :: string where
  "unexpected_later = ''An unexpected error occurred. Please try again later.''"

text \<open>The \<^verbatim>\<open>catch\<close> of \<^verbatim>\<open>POST /screenshot\<close>: the three capture messages pass verbatim with
  status 400, anything else is a 500 with a fixed text.\<close>

definition screenshot_catch :: "string \<Rightarrow> response" where
  "screenshot_catch m =
     (if str_includes m ''website address does not seem to exist''
         \<or> str_includes m ''website took too long to load''
         \<or> str_includes m ''Could not capture a screenshot''
      then json_error 400 m
      else json_error 500 unexpected_later)"

definition processing_error :: "string \<Rightarrow> logval list" where
  "processing_error m = [LStr ''Error processing request:'', LStr m]"

text \<open>The \<^verbatim>\<open>try\<close> block shared by both versions of \<^verbatim>\<open>POST /screenshot\<close>, given the
  version's \<^verbatim>\<open>getScreenshot\<close> and \<^verbatim>\<open>analyzeImage\<close>; \<open>pre\<close> holds the calls issued before.\<close>

definition screenshot_try ::
  "world \<Rightarrow> (world \<Rightarrow> string \<Rightarrow> logval list list \<times> (string + string)) \<Rightarrow>
   (world \<Rightarrow> string \<Rightarrow> logval list list \<times> (string + string option)) \<Rightarrow>
   call list \<Rightarrow> string \<Rightarrow> outcome" where
  "screenshot_try w shoot analyze pre u =
     (case shoot w u of
        (l1, Inl m) \<Rightarrow>
          \<lparr>reply = Some (screenshot_catch m), calls = pre @ [Capture u],
           logs = l1 @ [processing_error m]\<rparr>
      | (l1, Inr base64Image) \<Rightarrow>
          (case analyze w base64Image of
             (l2, Inl m) \<Rightarrow>
               \<lparr>reply = Some (screenshot_catch m),
                calls = pre @ [Capture u, OpenAI base64Image],
                logs = l1 @ l2 @ [processing_error m]\<rparr>
           | (l2, Inr analysisResult) \<Rightarrow>
               (case parse_content w analysisResult of
                  Inl m \<Rightarrow>
                    \<lparr>reply = Some (screenshot_catch m),
                     calls = pre @ [Capture u, OpenAI base64Image],
                     logs = l1 @ l2 @ [processing_error m]\<rparr>
                | Inr analysisObject \<Rightarrow>
                    \<lparr>reply = Some (Response 200 [] (AnalysisBody analysisObject base64Image)),
                     calls = pre @ [Capture u, OpenAI base64Image],
                     logs = l1 @ l2\<rparr>)))"

text \<open>The validation both versions of \<^verbatim>\<open>POST /screenshot\<close> start with: \<open>Inl\<close> the
  rejection, \<open>Inr\<close> the URL as a string.\<close>

definition screenshot_validate :: "world \<Rightarrow> jsval \<Rightarrow> response + string" where
  "screenshot_validate w v =
     (if \<not> truthy v then Inl (json_error 400 url_required)
      else (case v of
              JStr u \<Rightarrow>
                (if length u > 2048 \<or> \<not> validURL w u
                 then Inl (json_error 400 invalid_url_format)
                 else Inr u)
            | _ \<Rightarrow> Inl (json_error 400 invalid_url_format)))"

definition post_screenshot_app :: "world \<Rightarrow> jsval \<Rightarrow> outcome" where
  "post_screenshot_app w v =
     (case screenshot_validate w v of
        Inl r \<Rightarrow> \<lparr>reply = Some r, calls = [], logs = []\<rparr>
      | Inr u \<Rightarrow>
          (case isPublicUrl w u of
             (False, cs) \<Rightarrow> \<lparr>reply = Some (json_error 400 not_public), calls = cs, logs = []\<rparr>
           | (True, cs) \<Rightarrow> screenshot_try w getScreenshot_app analyzeImage_app cs u))"

section \<open>\<^verbatim>\<open>src/unnamed/part_001\<close>, first file: \<^verbatim>\<open>POST /screenshot\<close> with classified capture errors\<close>

definition address_not_found :: string where
  "address_not_found =
     ''This website address does not seem to exist. Please check the URL for typos.''"

definition too_long_to_load :: string where
  "too_long_to_load =
     ''This website took too long to load. It might be down, very slow, or protected.''"

definition could_not_capture :: string where
  "could_not_capture =
     ''Could not capture a screenshot. The website may be offline or blocking automated tools.''"

text \<open>The message \<^verbatim>\<open>getScreenshot\<close> throws for a capture error with message \<open>m\<close>.\<close>

definition classify :: "string \<Rightarrow> string" where
  "classify m =
     (if str_includes m ''ERR_NAME_NOT_RESOLVED'' then address_not_found
      else if str_includes m ''Navigation timeout'' then too_long_to_load
      else could_not_capture)"

definition getScreenshot_cw :: "world \<Rightarrow> string \<Rightarrow> logval list list \<times> (string + string)" where
  "getScreenshot_cw w u =
     (case captureWebsite w u of
        Inr base64Image \<Rightarrow> ([], Inr base64Image)
      | Inl m \<Rightarrow> ([[LStr ''Error making capture-website call:'', LStr m]], Inl (classify m)))"

text \<open>\<^verbatim>\<open>analyzeImage\<close> and the \<^verbatim>\<open>catch\<close> of this file are those of \<^verbatim>\<open>app.mjs\<close>; the
  handler has no address gate.\<close>

definition post_screenshot_cw :: "world \<Rightarrow> jsval \<Rightarrow> outcome" where
  "post_screenshot_cw w v =
     (case screenshot_validate w v of
        Inl r \<Rightarrow> \<lparr>reply = Some r, calls = [], logs = []\<rparr>
      | Inr u \<Rightarrow> screenshot_try w getScreenshot_cw analyzeImage_app [] u)"

section \<open>\<^verbatim>\<open>src/unnamed/part_001\<close>, second file: \<^verbatim>\<open>POST /roast\<close> and the record store\<close>

definition analysis_failed :: string where
  "analysis_failed =
     ''Failed to analyze screenshot with OpenAI Vision. See server logs for full details.''"

text \<open>The \<^verbatim>\<open>catch\<close> of \<^verbatim>\<open>analyzeImage\<close> writes the provider's status, body and headers
  (or, for an error without a response, its message) to \<^verbatim>\<open>console.error\<close>, between two
  banner lines; the first banner starts and the last one ends with a line feed.\<close>

definition openai_error_log :: "provider_error \<Rightarrow> logval list list" where
  "openai_error_log e =
     [[LStr ''\<newline>--- FULL OPENAI API ERROR LOG ---'']]
     @ (case err_response e of
          Some (st, dat, hdrs) \<Rightarrow>
            [[LStr ''STATUS:'', LNum st], [LStr ''DATA:'', LStr dat],
             [LStr ''HEADERS:'', LStr hdrs]]
        | None \<Rightarrow> [[LStr ''An unexpected error occurred:'', LStr (err_message e)]])
     @ [[LStr ''--- END OF ERROR LOG ---\<newline>'']]"

text \<open>\<^verbatim>\<open>analyzeImage\<close>: the content, or the log lines and the fixed message of the error
  thrown on.\<close>

definition analyzeImage :: "world \<Rightarrow> string \<Rightarrow> logval list list \<times> (string + string option)" where
  "analyzeImage w base64Image =
     (case openai_create w base64Image of
        Inr content \<Rightarrow> ([], Inr content)
      | Inl e \<Rightarrow> (openai_error_log e, Inl analysis_failed))"

definition getScreenshotFromAPI ::
  "world \<Rightarrow> string \<Rightarrow> call list \<times> logval list list \<times> (string + bytes)" where
  "getScreenshotFromAPI w targetUrl =
     (if apiFlashKey w = [] then ([], [], Inl ''APIFlash API key is not configured.'')
      else (case apiflash_fetch w targetUrl of
              FetchRejected m \<Rightarrow> ([ApiFlash targetUrl], [], Inl m)
            | FetchResponse ok b \<Rightarrow>
                (if \<not> ok
                 then ([ApiFlash targetUrl], [[LStr ''APIFlash Error:'', LStr b]],
                       Inl ''Failed to capture screenshot via APIFlash.'')
                 else ([ApiFlash targetUrl], [], Inr b))))"

definition valid_url_required :: string where
  "valid_url_required = ''A valid URL is required.''"

definition unexpected :: string where
  "unexpected = ''An unexpected error occurred.''"

text \<open>The \<^verbatim>\<open>catch\<close> of \<^verbatim>\<open>POST /roast\<close>: the message is logged, the response is fixed.\<close>

definition roast_catch :: "row list \<Rightarrow> call list \<Rightarrow> logval list list \<Rightarrow> string \<Rightarrow> roast_outcome" where
  "roast_catch store cs ls m =
     \<lparr>reply = Some (json_error 500 unexpected), calls = cs,
      logs = ls @ [processing_error m], db = store\<rparr>"

text \<open>
  Steps 3 to 5 of the handler, from \<^verbatim>\<open>crypto.randomUUID()\<close> to the insert: the path
  of the upload, the row inserted, and the commit itself. Both tasks
  of \<^verbatim>\<open>Promise.all\<close> are started, the upload first. The upload never rejects, it
  resolves to \<^verbatim>\<open>{data, error}\<close>; so \<^verbatim>\<open>Promise.all\<close> rejects exactly when \<^verbatim>\<open>analyzeImage\<close>
  does, and \<^verbatim>\<open>uploadError\<close> is looked at only after the join.
\<close>

definition upload_path :: "world \<Rightarrow> string" where
  "upload_path w = ''public/'' @ randomUUID w @ ''.webp''"

definition new_row :: "world \<Rightarrow> string \<Rightarrow> jsval \<Rightarrow> jsval \<Rightarrow> string \<Rightarrow> row" where
  "new_row w u visitorId analysisObject uploaded =
     \<lparr>row_id = randomUUID w, row_url = u, roast_json = analysisObject,
      screenshot_url = getPublicUrl w uploaded,
      visitor_id = (if truthy visitorId then visitorId else JNull),
      created_at = db_now w\<rparr>"

definition roast_commit ::
  "world \<Rightarrow> row list \<Rightarrow> call list \<Rightarrow> logval list list \<Rightarrow> string \<Rightarrow> jsval \<Rightarrow> bytes \<Rightarrow>
   roast_outcome" where
  "roast_commit w store pre l1 u visitorId compressedImageBuffer =
     (let base64Image = base64 w compressedImageBuffer;
          cs = pre @ [StorageUpload (upload_path w) compressedImageBuffer, OpenAI base64Image]
      in (case analyzeImage w base64Image of
            (l2, Inl m) \<Rightarrow> roast_catch store cs (l1 @ l2) m
          | (l2, Inr analysisResult) \<Rightarrow>
              (case storage_upload w (upload_path w) compressedImageBuffer of
                 Inl m \<Rightarrow> roast_catch store cs (l1 @ l2) m
               | Inr uploaded \<Rightarrow>
                   (case parse_content w analysisResult of
                      Inl m \<Rightarrow> roast_catch store cs (l1 @ l2) m
                    | Inr analysisObject \<Rightarrow>
                        (let r = new_row w u visitorId analysisObject uploaded
                         in (case db_insert_error w r of
                               Some m \<Rightarrow> roast_catch store (cs @ [DbInsert r]) (l1 @ l2) m
                             | None \<Rightarrow>
                                 \<lparr>reply = Some (Response 200 [] (RowBody r)),
                                  calls = cs @ [DbInsert r], logs = l1 @ l2,
                                  db = store @ [r]\<rparr>))))))"

text \<open>
  The join of the commit, \<^verbatim>\<open>await Promise.all([upload, analyzeImage(base64Image)])\<close>: the
  tasks that have settled, in the order they settled, when the handler resumes after the
  \<^verbatim>\<open>await\<close>. \<^verbatim>\<open>Promise.all\<close> fulfils once every promise has fulfilled and rejects as soon
  as one of them rejects, without waiting for the others and without cancelling them.
  The upload promise always fulfils (with \<^verbatim>\<open>{data, error}\<close>), the promise of
  \<^verbatim>\<open>analyzeImage\<close> rejects when the generation fails. Which of the two settles first is
  decided by the network, and is a parameter.
\<close>

datatype task = UploadTask | GenerationTask

datatype settle_order = UploadFirst | GenerationFirst

definition settled_at_join :: "world \<Rightarrow> settle_order \<Rightarrow> bytes \<Rightarrow> task list" where
  "settled_at_join w order compressedImageBuffer =
     (case analyzeImage w (base64 w compressedImageBuffer) of
        (l2, Inr analysisResult) \<Rightarrow>
          (case order of
             UploadFirst \<Rightarrow> [UploadTask, GenerationTask]
           | GenerationFirst \<Rightarrow> [GenerationTask, UploadTask])
      | (l2, Inl m) \<Rightarrow>
          (case order of
             UploadFirst \<Rightarrow> [UploadTask, GenerationTask]
           | GenerationFirst \<Rightarrow> [GenerationTask]))"

definition roast_try :: "world \<Rightarrow> row list \<Rightarrow> string \<Rightarrow> jsval \<Rightarrow> roast_outcome" where
  "roast_try w store u visitorId =
     (case getScreenshotFromAPI w u of
        (c1, l1, Inl m) \<Rightarrow> roast_catch store c1 l1 m
      | (c1, l1, Inr screenshotBuffer) \<Rightarrow>
          (case sharp w screenshotBuffer of
             Inl m \<Rightarrow> roast_catch store c1 l1 m
           | Inr compressedImageBuffer \<Rightarrow>
               roast_commit w store c1 l1 u visitorId compressedImageBuffer))"

text \<open>
  \<^verbatim>\<open>POST /roast\<close>. The validation is \<^verbatim>\<open>!url || !validURL(url)\<close>: no type test and no
  length test. For a truthy value that is not a string, \<^verbatim>\<open>validator.isURL\<close> throws
  outside the \<^verbatim>\<open>try\<close> and no response is sent.
\<close>

definition post_roast :: "world \<Rightarrow> row list \<Rightarrow> jsval \<Rightarrow> jsval \<Rightarrow> roast_outcome" where
  "post_roast w store v visitorId =
     (if \<not> truthy v
      then \<lparr>reply = Some (json_error 400 valid_url_required), calls = [], logs = [], db = store\<rparr>
      else (case v of
              JStr u \<Rightarrow>
                (if \<not> validURL w u
                 then \<lparr>reply = Some (json_error 400 valid_url_required), calls = [], logs = [],
                       db = store\<rparr>
                 else roast_try w store u visitorId)
            | _ \<Rightarrow> \<lparr>reply = None, calls = [], logs = [], db = store\<rparr>))"

subsection \<open>The read routes\<close>

text \<open>
  The Supabase query builder over the table: \<^verbatim>\<open>eq\<close> filters, \<^verbatim>\<open>order("created_at",
  {ascending: false})\<close> puts the newest row first, \<^verbatim>\<open>limit(3)\<close> keeps three rows. A list
  query that matches no row answers \<^verbatim>\<open>data: []\<close> with \<^verbatim>\<open>error: null\<close>; \<^verbatim>\<open>single()\<close>
  answers an error unless exactly one row matches.
\<close>

definition newest_first :: "row list \<Rightarrow> row list" where
  "newest_first rows = rev (sort_key created_at rows)"

definition get_root :: "row list \<Rightarrow> roast_outcome" where
  "get_root store = \<lparr>reply = Some (Response 200 [] StatusOk), calls = [], logs = [], db = store\<rparr>"

definition get_roasts :: "world \<Rightarrow> row list \<Rightarrow> roast_outcome" where
  "get_roasts w store =
     (case db_select_error w of
        Some m \<Rightarrow>
          \<lparr>reply = Some (json_error 500 ''Failed to fetch roasts.''), calls = [DbSelect],
           logs = [[LStr ''Error fetching roasts:'', LStr m]], db = store\<rparr>
      | None \<Rightarrow>
          \<lparr>reply = Some (Response 200 [] (RowsBody (take 3 (newest_first store)))),
           calls = [DbSelect], logs = [], db = store\<rparr>)"

definition get_roast :: "world \<Rightarrow> row list \<Rightarrow> string \<Rightarrow> roast_outcome" where
  "get_roast w store ident =
     (if \<not> isUUID w ident
      then \<lparr>reply = Some (json_error 400 ''Invalid roast ID format.''), calls = [], logs = [],
            db = store\<rparr>
      else (case db_select_error w of
              Some m \<Rightarrow>
                \<lparr>reply = Some (json_error 404 ''Roast not found.''), calls = [DbSelect],
                 logs = [[LStr ''Error fetching single roast:'', LStr m]], db = store\<rparr>
            | None \<Rightarrow>
                (case filter (\<lambda>r. row_id r = ident) store of
                   [r] \<Rightarrow>
                     \<lparr>reply = Some (Response 200 [] (RowBody r)), calls = [DbSelect], logs = [],
                      db = store\<rparr>
                 | _ \<Rightarrow>
                     \<lparr>reply = Some (json_error 404 ''Roast not found.''), calls = [DbSelect],
                      logs = [[LStr ''Error fetching single roast:'',
                               LStr ''JSON object requested, multiple (or no) rows returned'']],
                      db = store\<rparr>)))"

definition no_roasts_found :: string where
  "no_roasts_found = ''No roasts found for this visitor.''"

definition get_roasts_mine :: "world \<Rightarrow> row list \<Rightarrow> string \<Rightarrow> roast_outcome" where
  "get_roasts_mine w store visitorId =
     (if visitorId = [] \<or> \<not> isUUID w visitorId
      then \<lparr>reply = Some (json_error 400 ''Invalid visitor ID format.''), calls = [], logs = [],
            db = store\<rparr>
      else (case db_select_error w of
              Some m \<Rightarrow>
                \<lparr>reply = Some (json_error 404 no_roasts_found), calls = [DbSelect],
                 logs = [[LStr ''Error fetching visitor roasts:'', LStr m]], db = store\<rparr>
            | None \<Rightarrow>
                \<lparr>reply = Some (Response 200 []
                   (RowsBody (newest_first (filter (\<lambda>r. visitor_id r = JStr visitorId) store)))),
                 calls = [DbSelect], logs = [], db = store\<rparr>))"

subsection \<open>The rate limiter and the routes\<close>

text \<open>The options passed to \<^verbatim>\<open>rateLimit\<close>.\<close>

definition windowMs :: nat where
  "windowMs = 15 * 60 * 1000"

definition max_requests :: nat where
  "max_requests = 3"

definition slow_down :: string where
  "slow_down = ''Are you trying to bankrupt me? Slow down!''"

definition skip :: "world \<Rightarrow> string \<Rightarrow> bool" where
  "skip w clientIp = (clientIp \<in> set (whitelist w))"

text \<open>The counters: per client address, the hits of the current window and the time
  (in milliseconds) at which the window ends.\<close>

type_synonym hits = "string \<Rightarrow> (nat \<times> nat) option"

text \<open>
  Modelled from the spec: the counting itself is done by the middleware that
  \<^verbatim>\<open>rateLimit(options)\<close> of the package express-rate-limit returns, whose code is not in
  the repository; the repository has its options only. Following section 4.4 of the
  specification, it is a fixed-window counter keyed by client address: the first counted
  request of an address opens a window of \<open>windowMs\<close>, each counted request in the window
  adds one hit, a request that brings the hits above \<open>max_requests\<close> is answered with
  status 429, the fixed message and the limit, remaining and reset metadata, and a
  request at or after the end of the window opens a new one. An address for which
  \<open>skip\<close> holds is admitted without being counted. The result is the new counters and
  either the rejection or the metadata for the response of the admitted request.
\<close>

definition limiter ::
  "world \<Rightarrow> hits \<Rightarrow> nat \<Rightarrow> string \<Rightarrow> hits \<times> (response + (string \<times> nat) list)" where
  "limiter w st now clientIp =
     (if skip w clientIp then (st, Inr [])
      else (let (n, reset) =
                  (case st clientIp of
                     None \<Rightarrow> (1, now + windowMs)
                   | Some (k, r) \<Rightarrow> (if now < r then (k + 1, r) else (1, now + windowMs)));
                hs = [(''RateLimit-Limit'', max_requests),
                      (''RateLimit-Remaining'', max_requests - n),
                      (''RateLimit-Reset'', (reset - now + 999) div 1000)]
            in (st(clientIp \<mapsto> (n, reset)),
                if n > max_requests then Inl (Response 429 hs (ErrorBody slow_down))
                else Inr hs)))"

text \<open>Whether each request of a sequence (time, address) passes the limiter.\<close>

fun admissions :: "world \<Rightarrow> hits \<Rightarrow> (nat \<times> string) list \<Rightarrow> bool list" where
  "admissions w st [] = []"
| "admissions w st ((now, clientIp) # rest) =
     (case limiter w st now clientIp of
        (st', Inl r) \<Rightarrow> False # admissions w st' rest
      | (st', Inr hs) \<Rightarrow> True # admissions w st' rest)"

text \<open>The decisions among \<open>bs\<close>, one per request of \<open>rs\<close>, that concern the requests of one
  address.\<close>

definition decisions_of :: "string \<Rightarrow> (nat \<times> string) list \<Rightarrow> bool list \<Rightarrow> bool list" where
  "decisions_of clientIp rs bs = map snd (filter (\<lambda>(q, b). snd q = clientIp) (zip rs bs))"

definition with_headers ::
  "(string \<times> nat) list \<Rightarrow> 'a outcome_scheme \<Rightarrow> 'a outcome_scheme" where
  "with_headers hs out =
     out\<lparr>reply := map_option (\<lambda>r. Response (status r) (hs @ headers r) (payload r)) (reply out)\<rparr>"

text \<open>The routes of the second file of \<^verbatim>\<open>part_001\<close>: only \<^verbatim>\<open>app.post("/roast", limiter,
  ...)\<close> names the limiter.\<close>

datatype request =
    GetRoot
  | GetRoasts
  | GetRoast string
  | GetRoastsMine string
  | PostRoast jsval jsval

fun is_get :: "request \<Rightarrow> bool" where
  "is_get (PostRoast v visitorId) = False"
| "is_get req = True"

definition serve ::
  "world \<Rightarrow> hits \<Rightarrow> row list \<Rightarrow> nat \<Rightarrow> string \<Rightarrow> request \<Rightarrow> hits \<times> roast_outcome" where
  "serve w st store now clientIp req =
     (case req of
        GetRoot \<Rightarrow> (st, get_root store)
      | GetRoasts \<Rightarrow> (st, get_roasts w store)
      | GetRoast ident \<Rightarrow> (st, get_roast w store ident)
      | GetRoastsMine visitorId \<Rightarrow> (st, get_roasts_mine w store visitorId)
      | PostRoast v visitorId \<Rightarrow>
          (case limiter w st now clientIp of
             (st', Inl r) \<Rightarrow> (st', \<lparr>reply = Some r, calls = [], logs = [], db = store\<rparr>)
           | (st', Inr hs) \<Rightarrow> (st', with_headers hs (post_roast w store v visitorId))))"

text \<open>The routes of \<^verbatim>\<open>app.mjs\<close>: \<^verbatim>\<open>app.get("/", ...)\<close> and
  \<^verbatim>\<open>app.post("/screenshot", limiter, ...)\<close>.\<close>

datatype request_app = AppGetRoot | AppPostScreenshot jsval

definition serve_app ::
  "world \<Rightarrow> hits \<Rightarrow> nat \<Rightarrow> string \<Rightarrow> request_app \<Rightarrow> hits \<times> outcome" where
  "serve_app w st now clientIp req =
     (case req of
        AppGetRoot \<Rightarrow> (st, \<lparr>reply = Some (Response 200 [] StatusOk), calls = [], logs = []\<rparr>)
      | AppPostScreenshot v \<Rightarrow>
          (case limiter w st now clientIp of
             (st', Inl r) \<Rightarrow> (st', \<lparr>reply = Some r, calls = [], logs = []\<rparr>)
           | (st', Inr hs) \<Rightarrow> (st', with_headers hs (post_screenshot_app w v))))"

subsection \<open>The schema sent to the provider\<close>

text \<open>\<^verbatim>\<open>roastSchema\<close> as a test on a decoded value: types, bounds, required fields and
  \<^verbatim>\<open>additionalProperties: false\<close>.\<close>

definition integer_in :: "int \<Rightarrow> int \<Rightarrow> jsval \<Rightarrow> bool" where
  "integer_in lo hi v =
     (case v of
        JNum r \<Rightarrow> rat_of_int \<lfloor>r\<rfloor> = r \<and> rat_of_int lo \<le> r \<and> r \<le> rat_of_int hi
      | _ \<Rightarrow> False)"

definition is_string :: "jsval \<Rightarrow> bool" where
  "is_string v = (case v of JStr s \<Rightarrow> True | _ \<Rightarrow> False)"

definition field_ok :: "(string \<times> jsval) list \<Rightarrow> string \<Rightarrow> (jsval \<Rightarrow> bool) \<Rightarrow> bool" where
  "field_ok kvs k P = (case map_of kvs k of None \<Rightarrow> False | Some v \<Rightarrow> P v)"

definition action_ok :: "jsval \<Rightarrow> bool" where
  "action_ok v =
     (case v of
        JObj kvs \<Rightarrow>
          set (map fst kvs) = set [''theOffense'', ''theRemedy'']
          \<and> field_ok kvs ''theOffense'' is_string \<and> field_ok kvs ''theRemedy'' is_string
      | _ \<Rightarrow> False)"

definition actions_of :: "jsval \<Rightarrow> jsval list option" where
  "actions_of v =
     (case v of
        JObj kvs \<Rightarrow>
          (case map_of kvs ''rehabilitationProgram'' of
             Some (JObj pkvs) \<Rightarrow>
               (case map_of pkvs ''correctiveActions'' of Some (JArr xs) \<Rightarrow> Some xs | _ \<Rightarrow> None)
           | _ \<Rightarrow> None)
      | _ \<Rightarrow> None)"

definition program_ok :: "jsval \<Rightarrow> bool" where
  "program_ok v =
     (case v of
        JObj kvs \<Rightarrow>
          set (map fst kvs) = set [''priorityOneDirective'', ''correctiveActions'']
          \<and> field_ok kvs ''priorityOneDirective'' is_string
          \<and> field_ok kvs ''correctiveActions''
               (\<lambda>a. case a of JArr xs \<Rightarrow> list_all action_ok xs | _ \<Rightarrow> False)
      | _ \<Rightarrow> False)"

definition conforms_roastSchema :: "jsval \<Rightarrow> bool" where
  "conforms_roastSchema v =
     (case v of
        JObj kvs \<Rightarrow>
          set (map fst kvs) =
            set [''theVerdict'', ''mayhemMeter'', ''culpritProfile'', ''openingStatement'',
                 ''caseFiles'', ''spiritAnimal'', ''rehabilitationProgram'']
          \<and> field_ok kvs ''theVerdict'' (integer_in 1 100)
          \<and> field_ok kvs ''mayhemMeter'' (integer_in 1 10)
          \<and> field_ok kvs ''culpritProfile'' is_string
          \<and> field_ok kvs ''openingStatement'' is_string
          \<and> field_ok kvs ''caseFiles'' is_string
          \<and> field_ok kvs ''spiritAnimal'' is_string
          \<and> field_ok kvs ''rehabilitationProgram'' program_ok
      | _ \<Rightarrow> False)"

text \<open>The CritiqueResult schema of the specification: \<^verbatim>\<open>roastSchema\<close>, and at least four
  corrective actions (a bound that \<^verbatim>\<open>roastSchema\<close> states in a description only).\<close>

definition critique_schema_ok :: "jsval \<Rightarrow> bool" where
  "critique_schema_ok v =
     (conforms_roastSchema v
      \<and> (case actions_of v of Some xs \<Rightarrow> 4 \<le> length xs | None \<Rightarrow> False))"

subsection \<open>A world for the examples\<close>

text \<open>
  Stand-ins for the services, for evaluating the handlers on concrete requests: a URL
  check that accepts what starts with \<^verbatim>\<open>http://\<close> or \<^verbatim>\<open>https://\<close>, a resolver that knows
  two hosts, a provider that answers the text \<^verbatim>\<open>{}\<close>, a store that accepts every
  upload and insert.
\<close>

definition demo_world :: world where
  "demo_world =
     \<lparr>isURL = (\<lambda>s. take 7 s = ''http://'' \<or> take 8 s = ''https://''),
      isUUID = (\<lambda>s. length s = 36),
      url_hostname =
        (\<lambda>s. if take 7 s = ''http://'' then Some (takeWhile (\<lambda>c. c \<noteq> CHR ''/'') (drop 7 s))
             else if take 8 s = ''https://''
             then Some (takeWhile (\<lambda>c. c \<noteq> CHR ''/'') (drop 8 s))
             else None),
      dns_lookup =
        (\<lambda>h. if h = ''127.0.0.1'' then Some ''127.0.0.1''
             else if h = ''example.com'' then Some ''93.184.216.34''
             else None),
      ipaddr_parse_ok = (\<lambda>a. True),
      ipaddr_range = (\<lambda>a. if a = ''127.0.0.1'' then ''loopback'' else ''unicast''),
      ipaddr_isPrivate = (\<lambda>a. Some False),
      captureWebsite = (\<lambda>u. Inr ''iVBORw0KGgo=''),
      openai_create = (\<lambda>b. Inr (Some ''{}'')),
      JSON_parse = (\<lambda>s. if s = ''{}'' then Inr (JObj []) else Inl ''Unexpected token''),
      apiFlashKey = ''key'',
      apiflash_fetch = (\<lambda>u. FetchResponse True ''RIFF''),
      sharp = (\<lambda>b. Inr b),
      base64 = (\<lambda>b. b),
      randomUUID = ''3b241101-e2bb-4255-8caf-4136c566a962'',
      storage_upload = (\<lambda>p b. Inr p),
      getPublicUrl = (\<lambda>p. ''https://cdn.example/'' @ p),
      db_insert_error = (\<lambda>r. None),
      db_select_error = None,
      db_now = 1000,
      whitelist = ['''']\<rparr>"

text \<open>A URL of 2049 characters.\<close>

definition long_url :: string where
  "long_url = ''http://example.com/'' @ replicate 2030 (CHR ''a'')"

section \<open>Properties\<close>

subsection \<open>The address gate\<close>

lemma getScreenshotFromAPI_calls:
  "fst (getScreenshotFromAPI w u) = (if apiFlashKey w = [] then [] else [ApiFlash u])"
  by (simp add: getScreenshotFromAPI_def split: fetch_result.splits)

text \<open>
  Claim C1, as the code has it. The address gate belongs to \<^verbatim>\<open>POST /screenshot\<close> of
  \<^verbatim>\<open>app.mjs\<close>: for a request whose URL passes the syntactic validation and whose hostname
  resolves to an address of range \<^verbatim>\<open>loopback\<close> or \<^verbatim>\<open>unspecified\<close>, or to one for which
  \<^verbatim>\<open>isPrivate()\<close> does not answer \<^verbatim>\<open>false\<close> (it answers \<^verbatim>\<open>true\<close> or throws), the response is
  400 with the "not publicly accessible" message, and the only call issued is the DNS
  lookup: the screenshot is never captured. \<^verbatim>\<open>POST /roast\<close> has no such gate: every
  non-empty URL that \<open>validURL\<close> accepts is sent to the capture service when its key is
  configured, whatever its hostname resolves to.
\<close>

theorem address_gate_on_screenshot:
  "(screenshot_validate w v = Inr u \<and> url_hostname w u = Some h \<and> dns_lookup w h = Some a
      \<and> (ipaddr_range w a = ''loopback'' \<or> ipaddr_range w a = ''unspecified''
           \<or> ipaddr_isPrivate w a \<noteq> Some False)
     \<longrightarrow> post_screenshot_app w v =
           \<lparr>reply = Some (json_error 400 not_public), calls = [DnsLookup h], logs = []\<rparr>)
   \<and> (u' \<noteq> [] \<and> validURL w u' \<and> apiFlashKey w \<noteq> []
     \<longrightarrow> ApiFlash u' \<in> set (calls (post_roast w store (JStr u') visitorId)))"
proof (intro conjI impI)
  assume h: "screenshot_validate w v = Inr u \<and> url_hostname w u = Some h
      \<and> dns_lookup w h = Some a
      \<and> (ipaddr_range w a = ''loopback'' \<or> ipaddr_range w a = ''unspecified''
           \<or> ipaddr_isPrivate w a \<noteq> Some False)"
  then have "isPublicUrl w u = (False, [DnsLookup h])"
    by (auto simp: isPublicUrl_def split: option.splits)
  with h show "post_screenshot_app w v =
           \<lparr>reply = Some (json_error 400 not_public), calls = [DnsLookup h], logs = []\<rparr>"
    by (simp add: post_screenshot_app_def)
next
  assume h: "u' \<noteq> [] \<and> validURL w u' \<and> apiFlashKey w \<noteq> []"
  have "fst (getScreenshotFromAPI w u') = [ApiFlash u']"
    using h by (simp add: getScreenshotFromAPI_calls)
  then obtain l r where g: "getScreenshotFromAPI w u' = ([ApiFlash u'], l, r)"
    by (cases "getScreenshotFromAPI w u'") auto
  show "ApiFlash u' \<in> set (calls (post_roast w store (JStr u') visitorId))"
    using h g
    by (auto simp: post_roast_def roast_try_def roast_commit_def roast_catch_def Let_def
        split: sum.splits option.splits prod.splits)
qed

text \<open>The gate at \<^verbatim>\<open>http://127.0.0.1\<close>: \<^verbatim>\<open>POST /screenshot\<close> rejects it after the lookup,
  \<^verbatim>\<open>POST /roast\<close> sends it to the capture service.\<close>

theorem address_gate_on_screenshot_witness:
  "post_screenshot_app demo_world (JStr ''http://127.0.0.1'') =
     \<lparr>reply = Some (json_error 400 not_public), calls = [DnsLookup ''127.0.0.1''], logs = []\<rparr>
   \<and> ApiFlash ''http://127.0.0.1''
       \<in> set (calls (post_roast demo_world [] (JStr ''http://127.0.0.1'') JUndefined))"
  using address_gate_on_screenshot [of demo_world "JStr ''http://127.0.0.1''"
      "''http://127.0.0.1''" "''127.0.0.1''" "''127.0.0.1''" "''http://127.0.0.1''" "[]"
      JUndefined]
  by (simp add: demo_world_def screenshot_validate_def validURL_def)

text \<open>
  Claim C1 as stated fails on \<^verbatim>\<open>POST /roast\<close>: in a world where \<^verbatim>\<open>127.0.0.1\<close> resolves
  to a loopback address, the request \<^verbatim>\<open>{url: "http://127.0.0.1"}\<close> is answered 200 after
  the capture, the upload, the generation and the insert.
\<close>

theorem roast_loopback_counterexample:
  "url_hostname demo_world ''http://127.0.0.1'' = Some ''127.0.0.1''
   \<and> dns_lookup demo_world ''127.0.0.1'' = Some ''127.0.0.1''
   \<and> ipaddr_range demo_world ''127.0.0.1'' = ''loopback''
   \<and> status (the (reply (post_roast demo_world [] (JStr ''http://127.0.0.1'') JUndefined))) = 200
   \<and> calls (post_roast demo_world [] (JStr ''http://127.0.0.1'') JUndefined) =
       [ApiFlash ''http://127.0.0.1'',
        StorageUpload ''public/3b241101-e2bb-4255-8caf-4136c566a962.webp'' ''RIFF'',
        OpenAI ''RIFF'',
        DbInsert (new_row demo_world ''http://127.0.0.1'' JUndefined (JObj [])
                    ''public/3b241101-e2bb-4255-8caf-4136c566a962.webp'')]"
  by (simp add: demo_world_def post_roast_def validURL_def roast_try_def
      getScreenshotFromAPI_def roast_commit_def analyzeImage_def upload_path_def
      parse_content_def Let_def new_row_def)

subsection \<open>The commit\<close>

lemma roast_commit_generation_fails:
  "openai_create w (base64 w img) = Inl e \<Longrightarrow>
   roast_commit w store pre l1 u visitorId img =
     roast_catch store (pre @ [StorageUpload (upload_path w) img, OpenAI (base64 w img)])
       (l1 @ openai_error_log e) analysis_failed"
  by (simp add: roast_commit_def analyzeImage_def Let_def)

lemma roast_commit_upload_fails:
  "openai_create w (base64 w img) = Inr c \<Longrightarrow> storage_upload w (upload_path w) img = Inl m \<Longrightarrow>
   roast_commit w store pre l1 u visitorId img =
     roast_catch store (pre @ [StorageUpload (upload_path w) img, OpenAI (base64 w img)]) l1 m"
  by (simp add: roast_commit_def analyzeImage_def Let_def)

lemma roast_commit_parse_fails:
  "openai_create w (base64 w img) = Inr c \<Longrightarrow> storage_upload w (upload_path w) img = Inr p \<Longrightarrow>
   parse_content w c = Inl m \<Longrightarrow>
   roast_commit w store pre l1 u visitorId img =
     roast_catch store (pre @ [StorageUpload (upload_path w) img, OpenAI (base64 w img)]) l1 m"
  by (simp add: roast_commit_def analyzeImage_def Let_def)

lemma roast_commit_insert_fails:
  "openai_create w (base64 w img) = Inr c \<Longrightarrow> storage_upload w (upload_path w) img = Inr p \<Longrightarrow>
   parse_content w c = Inr j \<Longrightarrow> db_insert_error w (new_row w u visitorId j p) = Some m \<Longrightarrow>
   roast_commit w store pre l1 u visitorId img =
     roast_catch store
       (pre @ [StorageUpload (upload_path w) img, OpenAI (base64 w img),
               DbInsert (new_row w u visitorId j p)]) l1 m"
  by (simp add: roast_commit_def analyzeImage_def Let_def)

lemma roast_commit_succeeds:
  "openai_create w (base64 w img) = Inr c \<Longrightarrow> storage_upload w (upload_path w) img = Inr p \<Longrightarrow>
   parse_content w c = Inr j \<Longrightarrow> db_insert_error w (new_row w u visitorId j p) = None \<Longrightarrow>
   roast_commit w store pre l1 u visitorId img =
     \<lparr>reply = Some (Response 200 [] (RowBody (new_row w u visitorId j p))),
      calls = pre @ [StorageUpload (upload_path w) img, OpenAI (base64 w img),
                     DbInsert (new_row w u visitorId j p)],
      logs = l1, db = store @ [new_row w u visitorId j p]\<rparr>"
  by (simp add: roast_commit_def analyzeImage_def Let_def)

lemma roast_commit_db_changed:
  assumes "db (roast_commit w store pre l1 u visitorId img) \<noteq> store"
  shows "\<exists>p c j. storage_upload w (upload_path w) img = Inr p
           \<and> openai_create w (base64 w img) = Inr c \<and> parse_content w c = Inr j
           \<and> db_insert_error w (new_row w u visitorId j p) = None"
proof (cases "openai_create w (base64 w img)")
  case (Inl e)
  with assms show ?thesis by (simp add: roast_commit_generation_fails roast_catch_def)
next
  case gen: (Inr c)
  show ?thesis
  proof (cases "storage_upload w (upload_path w) img")
    case (Inl m)
    with assms gen show ?thesis by (simp add: roast_commit_upload_fails roast_catch_def)
  next
    case up: (Inr p)
    show ?thesis
    proof (cases "parse_content w c")
      case (Inl m)
      with assms gen up show ?thesis by (simp add: roast_commit_parse_fails roast_catch_def)
    next
      case parse: (Inr j)
      show ?thesis
      proof (cases "db_insert_error w (new_row w u visitorId j p)")
        case None
        with gen up parse show ?thesis by blast
      next
        case (Some m)
        with assms gen up parse show ?thesis
          by (simp add: roast_commit_insert_fails roast_catch_def)
      qed
    qed
  qed
qed

text \<open>
  Claim C2, as the code has it. In the commit of \<^verbatim>\<open>POST /roast\<close>, when the upload or the
  generation fails, the store is unchanged, the response is the generic 500 and no insert
  is issued (the calls are the upload and the generation only). The store changes exactly
  when all four stages succeed: the upload, the generation, the decoding of the content
  by \<^verbatim>\<open>JSON.parse\<close>, and the insert itself; then exactly the new row is appended.
\<close>

theorem record_inserted_iff_all_stages_succeed:
  "(storage_upload w (upload_path w) img = Inl m \<or> openai_create w (base64 w img) = Inl e
      \<longrightarrow> db (roast_commit w store pre l1 u visitorId img) = store
          \<and> reply (roast_commit w store pre l1 u visitorId img) = Some (json_error 500 unexpected)
          \<and> calls (roast_commit w store pre l1 u visitorId img) =
              pre @ [StorageUpload (upload_path w) img, OpenAI (base64 w img)])
   \<and> (db (roast_commit w store pre l1 u visitorId img) \<noteq> store \<longleftrightarrow>
        (\<exists>p c j. storage_upload w (upload_path w) img = Inr p
           \<and> openai_create w (base64 w img) = Inr c \<and> parse_content w c = Inr j
           \<and> db_insert_error w (new_row w u visitorId j p) = None))
   \<and> (storage_upload w (upload_path w) img = Inr p \<and> openai_create w (base64 w img) = Inr c
        \<and> parse_content w c = Inr j \<and> db_insert_error w (new_row w u visitorId j p) = None
      \<longrightarrow> db (roast_commit w store pre l1 u visitorId img) = store @ [new_row w u visitorId j p])"
proof (intro conjI impI)
  assume f: "storage_upload w (upload_path w) img = Inl m \<or> openai_create w (base64 w img) = Inl e"
  have "\<exists>ls m'. roast_commit w store pre l1 u visitorId img =
          roast_catch store (pre @ [StorageUpload (upload_path w) img, OpenAI (base64 w img)]) ls m'"
  proof (cases "openai_create w (base64 w img)")
    case (Inl e')
    then show ?thesis using roast_commit_generation_fails by blast
  next
    case (Inr c)
    with f have "storage_upload w (upload_path w) img = Inl m" by simp
    with Inr show ?thesis using roast_commit_upload_fails by blast
  qed
  then obtain ls m' where c: "roast_commit w store pre l1 u visitorId img =
          roast_catch store (pre @ [StorageUpload (upload_path w) img, OpenAI (base64 w img)]) ls m'"
    by blast
  show "db (roast_commit w store pre l1 u visitorId img) = store"
    by (simp add: c roast_catch_def)
  show "reply (roast_commit w store pre l1 u visitorId img) = Some (json_error 500 unexpected)"
    by (simp add: c roast_catch_def)
  show "calls (roast_commit w store pre l1 u visitorId img) =
              pre @ [StorageUpload (upload_path w) img, OpenAI (base64 w img)]"
    by (simp add: c roast_catch_def)
next
  show "db (roast_commit w store pre l1 u visitorId img) \<noteq> store \<longleftrightarrow>
        (\<exists>p c j. storage_upload w (upload_path w) img = Inr p
           \<and> openai_create w (base64 w img) = Inr c \<and> parse_content w c = Inr j
           \<and> db_insert_error w (new_row w u visitorId j p) = None)"
  proof
    assume "db (roast_commit w store pre l1 u visitorId img) \<noteq> store"
    then show "\<exists>p c j. storage_upload w (upload_path w) img = Inr p
           \<and> openai_create w (base64 w img) = Inr c \<and> parse_content w c = Inr j
           \<and> db_insert_error w (new_row w u visitorId j p) = None"
      by (rule roast_commit_db_changed)
  next
    assume "\<exists>p c j. storage_upload w (upload_path w) img = Inr p
           \<and> openai_create w (base64 w img) = Inr c \<and> parse_content w c = Inr j
           \<and> db_insert_error w (new_row w u visitorId j p) = None"
    then obtain p c j where "storage_upload w (upload_path w) img = Inr p"
      "openai_create w (base64 w img) = Inr c" "parse_content w c = Inr j"
      "db_insert_error w (new_row w u visitorId j p) = None" by blast
    then show "db (roast_commit w store pre l1 u visitorId img) \<noteq> store"
      by (simp add: roast_commit_succeeds)
  qed
next
  assume "storage_upload w (upload_path w) img = Inr p \<and> openai_create w (base64 w img) = Inr c
        \<and> parse_content w c = Inr j \<and> db_insert_error w (new_row w u visitorId j p) = None"
  then show "db (roast_commit w store pre l1 u visitorId img) = store @ [new_row w u visitorId j p]"
    by (simp add: roast_commit_succeeds)
qed

text \<open>A failing provider leaves the store empty; with every stage succeeding the row is
  appended.\<close>

theorem record_inserted_iff_all_stages_succeed_witness:
  "db (roast_commit (demo_world\<lparr>openai_create := \<lambda>b. Inl (ProviderError ''429 quota'' None)\<rparr>)
         [] [] [] ''https://example.com'' JUndefined ''RIFF'') = []
   \<and> db (roast_commit demo_world [] [] [] ''https://example.com'' JUndefined ''RIFF'') =
       [new_row demo_world ''https://example.com'' JUndefined (JObj [])
          ''public/3b241101-e2bb-4255-8caf-4136c566a962.webp'']"
  using record_inserted_iff_all_stages_succeed
      [of "demo_world\<lparr>openai_create := \<lambda>b. Inl (ProviderError ''429 quota'' None)\<rparr>" "''RIFF''"
         "''m''" "ProviderError ''429 quota'' None" "[]" "[]" "[]" "''https://example.com''" JUndefined]
    record_inserted_iff_all_stages_succeed
      [of demo_world "''RIFF''" "''m''" "ProviderError ''429 quota'' None" "[]" "[]" "[]"
         "''https://example.com''" JUndefined
         "''public/3b241101-e2bb-4255-8caf-4136c566a962.webp''" "Some ''{}''" "JObj []"]
  by (simp add: demo_world_def upload_path_def parse_content_def)

text \<open>
  Claim C2 as stated fails in the direction "both succeeded, so a Record is inserted":
  with the upload and the generation both successful and the database refusing the
  insert (\<^verbatim>\<open>if (insertError) throw insertError\<close>), no Record is in the store.
\<close>

theorem insert_failure_counterexample:
  "storage_upload (demo_world\<lparr>db_insert_error := \<lambda>r. Some ''duplicate key value''\<rparr>)
       (upload_path (demo_world\<lparr>db_insert_error := \<lambda>r. Some ''duplicate key value''\<rparr>)) ''RIFF''
       = Inr ''public/3b241101-e2bb-4255-8caf-4136c566a962.webp''
   \<and> analyzeImage (demo_world\<lparr>db_insert_error := \<lambda>r. Some ''duplicate key value''\<rparr>) ''RIFF''
       = ([], Inr (Some ''{}''))
   \<and> db (roast_commit (demo_world\<lparr>db_insert_error := \<lambda>r. Some ''duplicate key value''\<rparr>)
           [] [] [] ''https://example.com'' JUndefined ''RIFF'') = []
   \<and> reply (roast_commit (demo_world\<lparr>db_insert_error := \<lambda>r. Some ''duplicate key value''\<rparr>)
           [] [] [] ''https://example.com'' JUndefined ''RIFF'') = Some (json_error 500 unexpected)"
  by (simp add: demo_world_def roast_commit_def analyzeImage_def upload_path_def
      parse_content_def Let_def roast_catch_def)

subsection \<open>The join of the commit\<close>

lemma settled_generation_ok:
  "openai_create w (base64 w img) = Inr c \<Longrightarrow>
   settled_at_join w order img =
     (case order of UploadFirst \<Rightarrow> [UploadTask, GenerationTask]
      | GenerationFirst \<Rightarrow> [GenerationTask, UploadTask])"
  by (simp add: settled_at_join_def analyzeImage_def)

lemma settled_generation_fails:
  "openai_create w (base64 w img) = Inl e \<Longrightarrow>
   settled_at_join w order img =
     (case order of UploadFirst \<Rightarrow> [UploadTask, GenerationTask]
      | GenerationFirst \<Rightarrow> [GenerationTask])"
  by (simp add: settled_at_join_def analyzeImage_def)

lemma roast_commit_starts_both:
  "take (length pre + 2) (calls (roast_commit w store pre l1 u visitorId img))
     = pre @ [StorageUpload (upload_path w) img, OpenAI (base64 w img)]"
  by (simp add: roast_commit_def analyzeImage_def roast_catch_def Let_def
      split: sum.splits option.splits)

text \<open>
  Claim C5, as the code has it. Both tasks of the commit are started, the upload first,
  and neither is cancelled. When the generation succeeds, the handler resumes only after
  both tasks have settled, in either order; so a failed upload fails the request only
  after the generation has been awaited. When the generation fails, \<^verbatim>\<open>Promise.all\<close>
  rejects at that moment: if the upload has settled before, both have been awaited, and
  if it has not, the request fails with the generic 500 while the upload, which was
  started, is not awaited. A Record is inserted only after both tasks have settled.
\<close>

theorem join_awaits_both_unless_generation_rejects:
  "take (length pre + 2) (calls (roast_commit w store pre l1 u visitorId img))
      = pre @ [StorageUpload (upload_path w) img, OpenAI (base64 w img)]
   \<and> (openai_create w (base64 w img) = Inr c
      \<longrightarrow> set (settled_at_join w order img) = {UploadTask, GenerationTask})
   \<and> (openai_create w (base64 w img) = Inr c \<and> storage_upload w (upload_path w) img = Inl m
      \<longrightarrow> GenerationTask \<in> set (settled_at_join w order img)
          \<and> reply (roast_commit w store pre l1 u visitorId img)
              = Some (json_error 500 unexpected))
   \<and> (openai_create w (base64 w img) = Inl e
      \<longrightarrow> settled_at_join w UploadFirst img = [UploadTask, GenerationTask]
          \<and> settled_at_join w GenerationFirst img = [GenerationTask]
          \<and> reply (roast_commit w store pre l1 u visitorId img)
              = Some (json_error 500 unexpected)
          \<and> StorageUpload (upload_path w) img
              \<in> set (calls (roast_commit w store pre l1 u visitorId img)))
   \<and> (db (roast_commit w store pre l1 u visitorId img) \<noteq> store
      \<longrightarrow> set (settled_at_join w order img) = {UploadTask, GenerationTask})"
proof (intro conjI impI)
  show "take (length pre + 2) (calls (roast_commit w store pre l1 u visitorId img))
      = pre @ [StorageUpload (upload_path w) img, OpenAI (base64 w img)]"
    by (rule roast_commit_starts_both)
next
  assume "openai_create w (base64 w img) = Inr c"
  then show "set (settled_at_join w order img) = {UploadTask, GenerationTask}"
    by (cases order) (auto simp: settled_generation_ok)
next
  assume h: "openai_create w (base64 w img) = Inr c \<and> storage_upload w (upload_path w) img = Inl m"
  then show "GenerationTask \<in> set (settled_at_join w order img)"
    by (cases order) (simp_all add: settled_generation_ok)
  from h show "reply (roast_commit w store pre l1 u visitorId img)
              = Some (json_error 500 unexpected)"
    by (simp add: roast_commit_upload_fails roast_catch_def)
next
  assume g: "openai_create w (base64 w img) = Inl e"
  then show "settled_at_join w UploadFirst img = [UploadTask, GenerationTask]"
    and "settled_at_join w GenerationFirst img = [GenerationTask]"
    by (simp_all add: settled_generation_fails)
  from g show "reply (roast_commit w store pre l1 u visitorId img)
              = Some (json_error 500 unexpected)"
    and "StorageUpload (upload_path w) img
              \<in> set (calls (roast_commit w store pre l1 u visitorId img))"
    by (simp_all add: roast_commit_generation_fails roast_catch_def)
next
  assume "db (roast_commit w store pre l1 u visitorId img) \<noteq> store"
  then obtain c' where "openai_create w (base64 w img) = Inr c'"
    using roast_commit_db_changed by blast
  then show "set (settled_at_join w order img) = {UploadTask, GenerationTask}"
    by (cases order) (auto simp: settled_generation_ok)
qed

text \<open>A failing upload with the generation settling first, a failing generation with
  the upload settling first, and a commit whose stages all succeed.\<close>

theorem join_awaits_both_unless_generation_rejects_witness:
  "set (settled_at_join (demo_world\<lparr>storage_upload := \<lambda>p b. Inl ''bucket not found''\<rparr>)
          GenerationFirst ''RIFF'') = {UploadTask, GenerationTask}
   \<and> reply (roast_commit (demo_world\<lparr>storage_upload := \<lambda>p b. Inl ''bucket not found''\<rparr>)
        [] [] [] ''https://example.com'' JUndefined ''RIFF'') = Some (json_error 500 unexpected)
   \<and> settled_at_join (demo_world\<lparr>openai_create := \<lambda>b. Inl (ProviderError ''503'' None)\<rparr>)
        UploadFirst ''RIFF'' = [UploadTask, GenerationTask]
   \<and> set (settled_at_join demo_world UploadFirst ''RIFF'') = {UploadTask, GenerationTask}"
proof -
  have a: "openai_create (demo_world\<lparr>storage_upload := \<lambda>p b. Inl ''bucket not found''\<rparr>)
             (base64 (demo_world\<lparr>storage_upload := \<lambda>p b. Inl ''bucket not found''\<rparr>) ''RIFF'')
           = Inr (Some ''{}'')
         \<and> storage_upload (demo_world\<lparr>storage_upload := \<lambda>p b. Inl ''bucket not found''\<rparr>)
             (upload_path (demo_world\<lparr>storage_upload := \<lambda>p b. Inl ''bucket not found''\<rparr>)) ''RIFF''
           = Inl ''bucket not found''"
    by (simp add: demo_world_def)
  have b: "openai_create (demo_world\<lparr>openai_create := \<lambda>b. Inl (ProviderError ''503'' None)\<rparr>)
             (base64 (demo_world\<lparr>openai_create := \<lambda>b. Inl (ProviderError ''503'' None)\<rparr>) ''RIFF'')
           = Inl (ProviderError ''503'' None)"
    by simp
  have c: "openai_create demo_world (base64 demo_world ''RIFF'') = Inr (Some ''{}'')"
    by (simp add: demo_world_def)
  note t1 = join_awaits_both_unless_generation_rejects
      [where w = "demo_world\<lparr>storage_upload := \<lambda>p b. Inl ''bucket not found''\<rparr>"
         and img = "''RIFF''" and c = "Some ''{}''" and m = "''bucket not found''"
         and order = GenerationFirst and store = "[]" and pre = "[]" and ?l1.0 = "[]"
         and u = "''https://example.com''" and visitorId = JUndefined]
  note t2 = join_awaits_both_unless_generation_rejects
      [where w = "demo_world\<lparr>openai_create := \<lambda>b. Inl (ProviderError ''503'' None)\<rparr>"
         and img = "''RIFF''" and e = "ProviderError ''503'' None"]
  note t3 = join_awaits_both_unless_generation_rejects
      [where w = demo_world and img = "''RIFF''" and c = "Some ''{}''" and order = UploadFirst]
  from a t1 have "set (settled_at_join (demo_world\<lparr>storage_upload := \<lambda>p b. Inl ''bucket not found''\<rparr>)
          GenerationFirst ''RIFF'') = {UploadTask, GenerationTask}"
    and "reply (roast_commit (demo_world\<lparr>storage_upload := \<lambda>p b. Inl ''bucket not found''\<rparr>)
        [] [] [] ''https://example.com'' JUndefined ''RIFF'') = Some (json_error 500 unexpected)"
    by blast+
  moreover from b t2 have "settled_at_join (demo_world\<lparr>openai_create := \<lambda>b. Inl (ProviderError ''503'' None)\<rparr>)
        UploadFirst ''RIFF'' = [UploadTask, GenerationTask]"
    by blast
  moreover from c t3 have "set (settled_at_join demo_world UploadFirst ''RIFF'') = {UploadTask, GenerationTask}"
    by blast
  ultimately show ?thesis by blast
qed

text \<open>
  Claim C5 as stated fails when the generation rejects before the upload has settled:
  the upload has been started, the request fails with the 500, and the only task that
  has settled at the join is the generation.
\<close>

theorem generation_rejects_first_counterexample:
  "settled_at_join (demo_world\<lparr>openai_create := \<lambda>b. Inl (ProviderError ''503'' None)\<rparr>)
      GenerationFirst ''RIFF'' = [GenerationTask]
   \<and> reply (roast_commit (demo_world\<lparr>openai_create := \<lambda>b. Inl (ProviderError ''503'' None)\<rparr>)
        [] [] [] ''https://example.com'' JUndefined ''RIFF'') = Some (json_error 500 unexpected)
   \<and> calls (roast_commit (demo_world\<lparr>openai_create := \<lambda>b. Inl (ProviderError ''503'' None)\<rparr>)
        [] [] [] ''https://example.com'' JUndefined ''RIFF'')
      = [StorageUpload ''public/3b241101-e2bb-4255-8caf-4136c566a962.webp'' ''RIFF'',
         OpenAI ''RIFF'']"
  by (simp add: settled_at_join_def analyzeImage_def roast_commit_def roast_catch_def Let_def
      demo_world_def upload_path_def)

subsection \<open>The critique of a committed Record\<close>

lemma roast_catch_not_200: "reply (roast_catch store cs ls m) \<noteq> Some (Response 200 hs b)"
  by (simp add: roast_catch_def json_error_def)

lemma roast_commit_200:
  assumes "reply (roast_commit w store pre l1 u visitorId img) = Some (Response 200 hs (RowBody r))"
  shows "\<exists>c p. openai_create w (base64 w img) = Inr c
           \<and> storage_upload w (upload_path w) img = Inr p
           \<and> parse_content w c = Inr (roast_json r)
           \<and> r = new_row w u visitorId (roast_json r) p
           \<and> db_insert_error w r = None
           \<and> db (roast_commit w store pre l1 u visitorId img) = store @ [r]"
proof (cases "openai_create w (base64 w img)")
  case (Inl e)
  with assms show ?thesis by (simp add: roast_commit_generation_fails roast_catch_not_200)
next
  case gen: (Inr c)
  show ?thesis
  proof (cases "storage_upload w (upload_path w) img")
    case (Inl m)
    with assms gen show ?thesis by (simp add: roast_commit_upload_fails roast_catch_not_200)
  next
    case up: (Inr p)
    show ?thesis
    proof (cases "parse_content w c")
      case (Inl m)
      with assms gen up show ?thesis by (simp add: roast_commit_parse_fails roast_catch_not_200)
    next
      case parse: (Inr j)
      show ?thesis
      proof (cases "db_insert_error w (new_row w u visitorId j p)")
        case None
        with assms gen up parse have r: "r = new_row w u visitorId j p"
          by (simp add: roast_commit_succeeds)
        then have "roast_json r = j" by (simp add: new_row_def)
        with r gen up parse None show ?thesis by (simp add: roast_commit_succeeds)
      next
        case (Some m)
        with assms gen up parse show ?thesis
          by (simp add: roast_commit_insert_fails roast_catch_not_200)
      qed
    qed
  qed
qed

lemma post_roast_200:
  assumes "reply (post_roast w store v visitorId) = Some (Response 200 hs (RowBody r))"
  shows "\<exists>u img. v = JStr u \<and> validURL w u
           \<and> post_roast w store v visitorId =
               roast_commit w store [ApiFlash u] [] u visitorId img"
proof -
  from assms obtain u where v: "v = JStr u" and ok: "validURL w u" "truthy v"
    by (cases v) (auto simp: post_roast_def json_error_def split: if_splits)
  then have p: "post_roast w store v visitorId = roast_try w store u visitorId"
    by (simp add: post_roast_def)
  obtain c1 l1 res where g: "getScreenshotFromAPI w u = (c1, l1, res)"
    by (cases "getScreenshotFromAPI w u") auto
  show ?thesis
  proof (cases res)
    case (Inl m)
    with assms p g show ?thesis by (simp add: roast_try_def roast_catch_not_200)
  next
    case (Inr buf)
    with g have cl: "c1 = [ApiFlash u] \<and> l1 = []"
      by (auto simp: getScreenshotFromAPI_def split: if_splits fetch_result.splits)
    show ?thesis
    proof (cases "sharp w buf")
      case (Inl m)
      with assms p g Inr show ?thesis by (simp add: roast_try_def roast_catch_not_200)
    next
      case img: (Inr img)
      with p g Inr cl v ok show ?thesis by (auto simp: roast_try_def)
    qed
  qed
qed

text \<open>
  Claim C3, as the code has it. The critique of a committed Record is the value that
  \<^verbatim>\<open>JSON.parse\<close> returns for the provider's content, whatever that value is: when
  \<^verbatim>\<open>POST /roast\<close> answers 200 with a row, the row's \<open>roast_json\<close> is the decoded content of
  a successful generation and the row is the one appended to the store; and for every
  decoded value \<open>j\<close>, a commit whose stages succeed answers 200 with a row whose
  \<open>roast_json\<close> is \<open>j\<close>. Nothing between the decoding and the insert looks at the value.
\<close>

theorem committed_critique_is_decoded_content:
  "(reply (post_roast w store v visitorId) = Some (Response 200 hs (RowBody r))
      \<longrightarrow> (\<exists>img c. openai_create w (base64 w img) = Inr c
              \<and> parse_content w c = Inr (roast_json r))
          \<and> db (post_roast w store v visitorId) = store @ [r])
   \<and> (storage_upload w (upload_path w) img' = Inr p \<and> openai_create w (base64 w img') = Inr c'
        \<and> parse_content w c' = Inr j \<and> db_insert_error w (new_row w u visitorId j p) = None
      \<longrightarrow> reply (roast_commit w store pre l1 u visitorId img')
            = Some (Response 200 [] (RowBody (new_row w u visitorId j p)))
          \<and> roast_json (new_row w u visitorId j p) = j)"
proof (intro conjI impI)
  assume a: "reply (post_roast w store v visitorId) = Some (Response 200 hs (RowBody r))"
  then obtain u0 img where p: "post_roast w store v visitorId =
      roast_commit w store [ApiFlash u0] [] u0 visitorId img"
    using post_roast_200 by blast
  with a have "reply (roast_commit w store [ApiFlash u0] [] u0 visitorId img)
      = Some (Response 200 hs (RowBody r))" by simp
  from roast_commit_200 [OF this] p
  show "\<exists>img c. openai_create w (base64 w img) = Inr c \<and> parse_content w c = Inr (roast_json r)"
    and "db (post_roast w store v visitorId) = store @ [r]"
    by auto
next
  assume "storage_upload w (upload_path w) img' = Inr p \<and> openai_create w (base64 w img') = Inr c'
        \<and> parse_content w c' = Inr j \<and> db_insert_error w (new_row w u visitorId j p) = None"
  then show "reply (roast_commit w store pre l1 u visitorId img')
            = Some (Response 200 [] (RowBody (new_row w u visitorId j p)))"
    by (simp add: roast_commit_succeeds)
next
  show "roast_json (new_row w u visitorId j p) = j" by (simp add: new_row_def)
qed

lemma demo_post_roast:
  "post_roast demo_world [] (JStr ''https://example.com'') JUndefined =
     \<lparr>reply = Some (Response 200 [] (RowBody
        (new_row demo_world ''https://example.com'' JUndefined (JObj [])
           ''public/3b241101-e2bb-4255-8caf-4136c566a962.webp''))),
      calls = [ApiFlash ''https://example.com'',
               StorageUpload ''public/3b241101-e2bb-4255-8caf-4136c566a962.webp'' ''RIFF'',
               OpenAI ''RIFF'',
               DbInsert (new_row demo_world ''https://example.com'' JUndefined (JObj [])
                  ''public/3b241101-e2bb-4255-8caf-4136c566a962.webp'')],
      logs = [],
      db = [new_row demo_world ''https://example.com'' JUndefined (JObj [])
              ''public/3b241101-e2bb-4255-8caf-4136c566a962.webp'']\<rparr>"
  by (simp add: demo_world_def post_roast_def validURL_def roast_try_def
      getScreenshotFromAPI_def roast_commit_def analyzeImage_def upload_path_def
      parse_content_def Let_def new_row_def)

text \<open>With a provider that answers the text \<^verbatim>\<open>{}\<close>, the row committed holds the empty
  object.\<close>

theorem committed_critique_is_decoded_content_witness:
  "(\<exists>img c. openai_create demo_world (base64 demo_world img) = Inr c
        \<and> parse_content demo_world c = Inr (JObj []))
   \<and> db (post_roast demo_world [] (JStr ''https://example.com'') JUndefined) =
       [new_row demo_world ''https://example.com'' JUndefined (JObj [])
          ''public/3b241101-e2bb-4255-8caf-4136c566a962.webp'']
   \<and> reply (roast_commit demo_world [] [] [] ''https://example.com'' JUndefined ''RIFF'')
       = Some (Response 200 [] (RowBody
           (new_row demo_world ''https://example.com'' JUndefined (JObj [])
              ''public/3b241101-e2bb-4255-8caf-4136c566a962.webp'')))"
  using committed_critique_is_decoded_content
      [of demo_world "[]" "JStr ''https://example.com''" JUndefined "[]"
         "new_row demo_world ''https://example.com'' JUndefined (JObj [])
            ''public/3b241101-e2bb-4255-8caf-4136c566a962.webp''"
         "''RIFF''" "''public/3b241101-e2bb-4255-8caf-4136c566a962.webp''" "Some ''{}''"
         "JObj []" "''https://example.com''" "[]" "[]"]
  by (simp add: demo_post_roast)
     (simp add: demo_world_def upload_path_def parse_content_def new_row_def)

text \<open>
  Claim C3 as stated fails: the provider's content \<^verbatim>\<open>{}\<close> is committed and returned with
  status 200, and the empty object has none of the required fields of the schema; a
  \<^verbatim>\<open>null\<close> content (a refusal) is committed as \<^verbatim>\<open>null\<close>.
\<close>

theorem unvalidated_critique_counterexample:
  "reply (post_roast demo_world [] (JStr ''https://example.com'') JUndefined) =
     Some (Response 200 [] (RowBody
        (new_row demo_world ''https://example.com'' JUndefined (JObj [])
           ''public/3b241101-e2bb-4255-8caf-4136c566a962.webp'')))
   \<and> db (post_roast demo_world [] (JStr ''https://example.com'') JUndefined) =
       [new_row demo_world ''https://example.com'' JUndefined (JObj [])
          ''public/3b241101-e2bb-4255-8caf-4136c566a962.webp'']
   \<and> roast_json (new_row demo_world ''https://example.com'' JUndefined (JObj [])
          ''public/3b241101-e2bb-4255-8caf-4136c566a962.webp'') = JObj []
   \<and> \<not> critique_schema_ok (JObj [])
   \<and> map roast_json
         (db (post_roast (demo_world\<lparr>openai_create := \<lambda>b. Inr None\<rparr>) []
                (JStr ''https://example.com'') JUndefined)) = [JNull]
   \<and> \<not> critique_schema_ok JNull"
  by (simp add: demo_post_roast)
     (simp add: new_row_def critique_schema_ok_def conforms_roastSchema_def
        demo_world_def post_roast_def validURL_def roast_try_def
        getScreenshotFromAPI_def roast_commit_def analyzeImage_def upload_path_def
        parse_content_def Let_def)

subsection \<open>Capture failures\<close>

lemma catch_address_not_found: "screenshot_catch address_not_found = json_error 400 address_not_found"
  by (simp add: screenshot_catch_def address_not_found_def)

lemma catch_too_long_to_load: "screenshot_catch too_long_to_load = json_error 400 too_long_to_load"
  by (simp add: screenshot_catch_def too_long_to_load_def)

lemma catch_could_not_capture: "screenshot_catch could_not_capture = json_error 400 could_not_capture"
  by (simp add: screenshot_catch_def could_not_capture_def)

lemma catch_classify: "screenshot_catch (classify m) = json_error 400 (classify m)"
  by (simp add: classify_def catch_address_not_found catch_too_long_to_load catch_could_not_capture)

lemma messages_distinct: "distinct [address_not_found, too_long_to_load, could_not_capture]"
  by (simp add: address_not_found_def too_long_to_load_def could_not_capture_def)

lemma roast_try_capture_fails:
  "snd (snd (getScreenshotFromAPI w u)) = Inl m \<Longrightarrow>
   roast_try w store u visitorId =
     roast_catch store (fst (getScreenshotFromAPI w u)) (fst (snd (getScreenshotFromAPI w u))) m"
  by (cases "getScreenshotFromAPI w u") (simp add: roast_try_def)

text \<open>
  Claim C4, as the code has it. \<^verbatim>\<open>getScreenshot\<close> of the capture-website version (first
  file of \<^verbatim>\<open>part_001\<close>) turns every capture error into exactly one of three fixed,
  pairwise different messages, chosen by the order of its two tests; on
  \<^verbatim>\<open>POST /screenshot\<close> of that version a capture failure is answered 400 with that
  message, after the capture call alone. On \<^verbatim>\<open>POST /roast\<close> a capture failure of any
  kind is answered 500 with the generic message, and the store is unchanged.
\<close>

theorem capture_failures_classified:
  "classify m \<in> {address_not_found, too_long_to_load, could_not_capture}
   \<and> distinct [address_not_found, too_long_to_load, could_not_capture]
   \<and> classify m =
       (if str_includes m ''ERR_NAME_NOT_RESOLVED'' then address_not_found
        else if str_includes m ''Navigation timeout'' then too_long_to_load
        else could_not_capture)
   \<and> (screenshot_validate w v = Inr u \<and> captureWebsite w u = Inl m
      \<longrightarrow> post_screenshot_cw w v =
            \<lparr>reply = Some (json_error 400 (classify m)), calls = [Capture u],
             logs = [[LStr ''Error making capture-website call:'', LStr m],
                     processing_error (classify m)]\<rparr>)
   \<and> (u' \<noteq> [] \<and> validURL w u' \<and> snd (snd (getScreenshotFromAPI w u')) = Inl m'
      \<longrightarrow> reply (post_roast w store (JStr u') visitorId) = Some (json_error 500 unexpected)
          \<and> db (post_roast w store (JStr u') visitorId) = store)"
proof (intro conjI impI)
  show "classify m \<in> {address_not_found, too_long_to_load, could_not_capture}"
    by (simp add: classify_def)
  show "distinct [address_not_found, too_long_to_load, could_not_capture]"
    by (rule messages_distinct)
  show "classify m =
       (if str_includes m ''ERR_NAME_NOT_RESOLVED'' then address_not_found
        else if str_includes m ''Navigation timeout'' then too_long_to_load
        else could_not_capture)"
    by (simp add: classify_def)
next
  assume "screenshot_validate w v = Inr u \<and> captureWebsite w u = Inl m"
  then show "post_screenshot_cw w v =
            \<lparr>reply = Some (json_error 400 (classify m)), calls = [Capture u],
             logs = [[LStr ''Error making capture-website call:'', LStr m],
                     processing_error (classify m)]\<rparr>"
    by (simp add: post_screenshot_cw_def screenshot_try_def getScreenshot_cw_def catch_classify)
next
  assume h: "u' \<noteq> [] \<and> validURL w u' \<and> snd (snd (getScreenshotFromAPI w u')) = Inl m'"
  then have "post_roast w store (JStr u') visitorId = roast_try w store u' visitorId"
    by (simp add: post_roast_def)
  with h show "reply (post_roast w store (JStr u') visitorId) = Some (json_error 500 unexpected)"
    and "db (post_roast w store (JStr u') visitorId) = store"
    by (simp_all add: roast_try_capture_fails roast_catch_def)
qed

text \<open>A navigation timeout on \<^verbatim>\<open>POST /screenshot\<close>, and a failed fetch on
  \<^verbatim>\<open>POST /roast\<close>.\<close>

theorem capture_failures_classified_witness:
  "post_screenshot_cw
     (demo_world\<lparr>captureWebsite := \<lambda>u. Inl ''Navigation timeout of 30000 ms exceeded''\<rparr>)
     (JStr ''https://example.com'') =
     \<lparr>reply = Some (json_error 400 too_long_to_load), calls = [Capture ''https://example.com''],
      logs = [[LStr ''Error making capture-website call:'',
               LStr ''Navigation timeout of 30000 ms exceeded''],
              processing_error too_long_to_load]\<rparr>
   \<and> reply (post_roast (demo_world\<lparr>apiflash_fetch := \<lambda>u. FetchRejected ''fetch failed''\<rparr>) []
        (JStr ''https://example.com'') JUndefined) = Some (json_error 500 unexpected)
   \<and> db (post_roast (demo_world\<lparr>apiflash_fetch := \<lambda>u. FetchRejected ''fetch failed''\<rparr>) []
        (JStr ''https://example.com'') JUndefined) = []"
  using capture_failures_classified
      [of "''Navigation timeout of 30000 ms exceeded''"
         "demo_world\<lparr>captureWebsite := \<lambda>u. Inl ''Navigation timeout of 30000 ms exceeded''\<rparr>"
         "JStr ''https://example.com''" "''https://example.com''" "''https://example.com''"
         "''fetch failed''" "[]" JUndefined]
    capture_failures_classified
      [of "''Navigation timeout of 30000 ms exceeded''"
         "demo_world\<lparr>apiflash_fetch := \<lambda>u. FetchRejected ''fetch failed''\<rparr>"
         "JStr ''https://example.com''" "''https://example.com''" "''https://example.com''"
         "''fetch failed''" "[]" JUndefined]
  by (simp add: demo_world_def screenshot_validate_def validURL_def getScreenshotFromAPI_def)

text \<open>
  Claim C4 as stated fails on \<^verbatim>\<open>POST /roast\<close>: a capture that times out, whether the
  fetch is aborted or the capture service answers with an error, is answered 500 with
  the generic message, not 400 with the timeout message.
\<close>

theorem roast_capture_timeout_counterexample:
  "reply (post_roast
       (demo_world\<lparr>apiflash_fetch := \<lambda>u. FetchRejected ''The operation was aborted due to timeout''\<rparr>)
       [] (JStr ''https://example.com'') JUndefined)
     = Some (Response 500 [] (ErrorBody ''An unexpected error occurred.''))
   \<and> reply (post_roast
       (demo_world\<lparr>apiflash_fetch := \<lambda>u. FetchResponse False ''Navigation timeout''\<rparr>)
       [] (JStr ''https://example.com'') JUndefined)
     = Some (Response 500 [] (ErrorBody ''An unexpected error occurred.''))"
  by (simp add: demo_world_def post_roast_def validURL_def roast_try_def
      getScreenshotFromAPI_def roast_catch_def json_error_def unexpected_def)

subsection \<open>Input validation\<close>

lemma long_url_valid: "length long_url = 2049 \<and> validURL demo_world long_url \<and> long_url \<noteq> []"
  by (simp add: long_url_def validURL_def demo_world_def)

text \<open>
  Claim C6, as the code has it. On \<^verbatim>\<open>POST /screenshot\<close> (both versions) a string that
  is empty, longer than 2048 characters or refused by \<open>validURL\<close> is answered 400 and no
  call is issued. On \<^verbatim>\<open>POST /roast\<close> a string that is empty or refused by \<open>validURL\<close> is
  answered 400, no call is issued and the store is unchanged; that route has no bound on
  the length.
\<close>

theorem invalid_input_issues_no_call:
  "(u = [] \<or> length u > 2048 \<or> \<not> validURL w u
      \<longrightarrow> post_screenshot_app w (JStr u) =
            \<lparr>reply = Some (json_error 400 (if u = [] then url_required else invalid_url_format)),
             calls = [], logs = []\<rparr>
          \<and> post_screenshot_cw w (JStr u) =
            \<lparr>reply = Some (json_error 400 (if u = [] then url_required else invalid_url_format)),
             calls = [], logs = []\<rparr>)
   \<and> (u' = [] \<or> \<not> validURL w u'
      \<longrightarrow> post_roast w store (JStr u') visitorId =
            \<lparr>reply = Some (json_error 400 valid_url_required), calls = [], logs = [],
             db = store\<rparr>)"
  by (auto simp: post_screenshot_app_def post_screenshot_cw_def screenshot_validate_def
      post_roast_def)

text \<open>The long URL on \<^verbatim>\<open>POST /screenshot\<close>, an \<^verbatim>\<open>ftp\<close> URL on \<^verbatim>\<open>POST /roast\<close>.\<close>

theorem invalid_input_issues_no_call_witness:
  "post_screenshot_app demo_world (JStr long_url) =
     \<lparr>reply = Some (json_error 400 invalid_url_format), calls = [], logs = []\<rparr>
   \<and> post_screenshot_cw demo_world (JStr long_url) =
     \<lparr>reply = Some (json_error 400 invalid_url_format), calls = [], logs = []\<rparr>
   \<and> post_roast demo_world [] (JStr ''ftp://example.com'') JUndefined =
     \<lparr>reply = Some (json_error 400 valid_url_required), calls = [], logs = [], db = []\<rparr>"
  using invalid_input_issues_no_call
      [of long_url demo_world "''ftp://example.com''" "[]" JUndefined] long_url_valid
  by (simp add: validURL_def) (simp add: demo_world_def)

text \<open>
  Claim C6 as stated fails on \<^verbatim>\<open>POST /roast\<close>: a URL of 2049 characters that the URL
  check accepts is captured, and the request is answered 200.
\<close>

theorem roast_long_url_counterexample:
  "length long_url = 2049
   \<and> status (the (reply (post_roast demo_world [] (JStr long_url) JUndefined))) = 200
   \<and> ApiFlash long_url \<in> set (calls (post_roast demo_world [] (JStr long_url) JUndefined))"
proof -
  have "post_roast demo_world [] (JStr long_url) JUndefined =
          roast_try demo_world [] long_url JUndefined"
    using long_url_valid by (simp add: post_roast_def)
  then show ?thesis
    using long_url_valid
    by (simp add: roast_try_def)
       (simp add: demo_world_def getScreenshotFromAPI_def roast_commit_def analyzeImage_def
         parse_content_def Let_def)
qed

subsection \<open>Generation failures\<close>

lemma openai_error_log_response:
  "err_response e = Some (st, dat, hdrs) \<Longrightarrow>
   [LStr ''STATUS:'', LNum st] \<in> set (openai_error_log e)
   \<and> [LStr ''DATA:'', LStr dat] \<in> set (openai_error_log e)"
  by (simp add: openai_error_log_def)

lemma post_roast_failing_provider:
  "reply (post_roast (w\<lparr>openai_create := \<lambda>b. Inl (f b)\<rparr>) store v visitorId)
     = reply (post_roast (w\<lparr>openai_create := \<lambda>b. Inl (g b)\<rparr>) store v visitorId)"
  by (cases v)
     (simp_all add: post_roast_def validURL_def roast_try_def getScreenshotFromAPI_def
        roast_commit_def analyzeImage_def roast_catch_def Let_def
        split: fetch_result.splits sum.splits)

lemma post_roast_failing_parse:
  "reply (post_roast (w\<lparr>JSON_parse := \<lambda>s. Inl (f s)\<rparr>) store v visitorId)
     = reply (post_roast (w\<lparr>JSON_parse := \<lambda>s. Inl (g s)\<rparr>) store v visitorId)"
  by (cases v)
     (simp_all add: post_roast_def validURL_def roast_try_def getScreenshotFromAPI_def
        roast_commit_def analyzeImage_def roast_catch_def parse_content_def Let_def
        new_row_def upload_path_def
        split: fetch_result.splits sum.splits option.splits)

lemma post_roast_reaches_commit:
  "u \<noteq> [] \<Longrightarrow> validURL w u \<Longrightarrow> getScreenshotFromAPI w u = (c1, l1, Inr buf) \<Longrightarrow>
   sharp w buf = Inr img \<Longrightarrow>
   post_roast w store (JStr u) visitorId = roast_commit w store c1 l1 u visitorId img"
  by (simp add: post_roast_def roast_try_def)

lemma post_roast_never_leaks:
  "reply (post_roast (w\<lparr>openai_create := \<lambda>b. Inl (f b)\<rparr>) store v visitorId)
     \<in> {None, Some (json_error 400 valid_url_required), Some (json_error 500 unexpected)}"
  by (cases v)
     (simp_all add: post_roast_def validURL_def roast_try_def getScreenshotFromAPI_def
        roast_commit_def analyzeImage_def roast_catch_def Let_def
        split: fetch_result.splits sum.splits)

text \<open>
  Claim C8, as the code has it. The failures of the generation that \<^verbatim>\<open>POST /roast\<close>
  detects are an error thrown by the provider call and a content that \<^verbatim>\<open>JSON.parse\<close>
  refuses. For a request that reaches the generation, either failure is answered 500
  with the fixed text and leaves the store unchanged; on a provider error the lines
  written to \<^verbatim>\<open>console.error\<close> are those of the capture, the provider's error log and the
  fixed message. The response does not depend on the error: two worlds that differ only
  in the error the provider throws get the same response, which is one of two fixed
  bodies when there is one, and so do two worlds that differ only in the message of the
  \<^verbatim>\<open>JSON.parse\<close> failure. The provider's status and body are in the error log. There is
  no validation stage: whatever value the content decodes to is answered 200 with the
  row that holds it.
\<close>

theorem detected_generation_failure_is_generic:
  "(u \<noteq> [] \<and> validURL w u \<and> getScreenshotFromAPI w u = (c1, l1, Inr buf)
      \<and> sharp w buf = Inr img \<and> openai_create w (base64 w img) = Inl e
     \<longrightarrow> reply (post_roast w store (JStr u) visitorId) = Some (json_error 500 unexpected)
         \<and> db (post_roast w store (JStr u) visitorId) = store
         \<and> logs (post_roast w store (JStr u) visitorId) =
             l1 @ openai_error_log e @ [processing_error analysis_failed])
   \<and> (u \<noteq> [] \<and> validURL w u \<and> getScreenshotFromAPI w u = (c1, l1, Inr buf)
      \<and> sharp w buf = Inr img \<and> openai_create w (base64 w img) = Inr c
      \<and> parse_content w c = Inl m
     \<longrightarrow> reply (post_roast w store (JStr u) visitorId) = Some (json_error 500 unexpected)
         \<and> db (post_roast w store (JStr u) visitorId) = store)
   \<and> (u \<noteq> [] \<and> validURL w u \<and> getScreenshotFromAPI w u = (c1, l1, Inr buf)
      \<and> sharp w buf = Inr img \<and> openai_create w (base64 w img) = Inr c
      \<and> parse_content w c = Inr j \<and> storage_upload w (upload_path w) img = Inr p
      \<and> db_insert_error w (new_row w u visitorId j p) = None
     \<longrightarrow> reply (post_roast w store (JStr u) visitorId)
           = Some (Response 200 [] (RowBody (new_row w u visitorId j p)))
         \<and> roast_json (new_row w u visitorId j p) = j)
   \<and> reply (post_roast (w\<lparr>openai_create := \<lambda>b. Inl (f b)\<rparr>) store v visitorId)
       = reply (post_roast (w\<lparr>openai_create := \<lambda>b. Inl (g b)\<rparr>) store v visitorId)
   \<and> reply (post_roast (w\<lparr>openai_create := \<lambda>b. Inl (f b)\<rparr>) store v visitorId)
       \<in> {None, Some (json_error 400 valid_url_required), Some (json_error 500 unexpected)}
   \<and> reply (post_roast (w\<lparr>JSON_parse := \<lambda>s. Inl (f' s)\<rparr>) store v visitorId)
       = reply (post_roast (w\<lparr>JSON_parse := \<lambda>s. Inl (g' s)\<rparr>) store v visitorId)
   \<and> (err_response e = Some (st, dat, hdrs)
      \<longrightarrow> [LStr ''STATUS:'', LNum st] \<in> set (openai_error_log e)
          \<and> [LStr ''DATA:'', LStr dat] \<in> set (openai_error_log e))"
proof (intro conjI impI)
  assume h: "u \<noteq> [] \<and> validURL w u \<and> getScreenshotFromAPI w u = (c1, l1, Inr buf)
      \<and> sharp w buf = Inr img \<and> openai_create w (base64 w img) = Inl e"
  then have p: "post_roast w store (JStr u) visitorId = roast_commit w store c1 l1 u visitorId img"
    by (simp add: post_roast_reaches_commit)
  from h have g: "openai_create w (base64 w img) = Inl e" by simp
  show "reply (post_roast w store (JStr u) visitorId) = Some (json_error 500 unexpected)"
    and "db (post_roast w store (JStr u) visitorId) = store"
    and "logs (post_roast w store (JStr u) visitorId) =
             l1 @ openai_error_log e @ [processing_error analysis_failed]"
    by (simp_all add: p roast_commit_generation_fails [OF g] roast_catch_def)
next
  assume h: "u \<noteq> [] \<and> validURL w u \<and> getScreenshotFromAPI w u = (c1, l1, Inr buf)
      \<and> sharp w buf = Inr img \<and> openai_create w (base64 w img) = Inr c
      \<and> parse_content w c = Inl m"
  then have p: "post_roast w store (JStr u) visitorId = roast_commit w store c1 l1 u visitorId img"
    by (simp add: post_roast_reaches_commit)
  have "\<exists>cs ls m'. roast_commit w store c1 l1 u visitorId img = roast_catch store cs ls m'"
  proof (cases "storage_upload w (upload_path w) img")
    case (Inl m')
    with h show ?thesis using roast_commit_upload_fails by blast
  next
    case (Inr q)
    with h show ?thesis using roast_commit_parse_fails by blast
  qed
  with p show "reply (post_roast w store (JStr u) visitorId) = Some (json_error 500 unexpected)"
    and "db (post_roast w store (JStr u) visitorId) = store"
    by (auto simp: roast_catch_def)
next
  assume h: "u \<noteq> [] \<and> validURL w u \<and> getScreenshotFromAPI w u = (c1, l1, Inr buf)
      \<and> sharp w buf = Inr img \<and> openai_create w (base64 w img) = Inr c
      \<and> parse_content w c = Inr j \<and> storage_upload w (upload_path w) img = Inr p
      \<and> db_insert_error w (new_row w u visitorId j p) = None"
  then have "post_roast w store (JStr u) visitorId = roast_commit w store c1 l1 u visitorId img"
    by (simp add: post_roast_reaches_commit)
  with h show "reply (post_roast w store (JStr u) visitorId)
           = Some (Response 200 [] (RowBody (new_row w u visitorId j p)))"
    by (simp add: roast_commit_succeeds)
  show "roast_json (new_row w u visitorId j p) = j" by (simp add: new_row_def)
next
  show "reply (post_roast (w\<lparr>openai_create := \<lambda>b. Inl (f b)\<rparr>) store v visitorId)
       = reply (post_roast (w\<lparr>openai_create := \<lambda>b. Inl (g b)\<rparr>) store v visitorId)"
    by (rule post_roast_failing_provider)
  show "reply (post_roast (w\<lparr>openai_create := \<lambda>b. Inl (f b)\<rparr>) store v visitorId)
       \<in> {None, Some (json_error 400 valid_url_required), Some (json_error 500 unexpected)}"
    by (rule post_roast_never_leaks)
  show "reply (post_roast (w\<lparr>JSON_parse := \<lambda>s. Inl (f' s)\<rparr>) store v visitorId)
       = reply (post_roast (w\<lparr>JSON_parse := \<lambda>s. Inl (g' s)\<rparr>) store v visitorId)"
    by (rule post_roast_failing_parse)
next
  assume "err_response e = Some (st, dat, hdrs)"
  then show "[LStr ''STATUS:'', LNum st] \<in> set (openai_error_log e)"
    and "[LStr ''DATA:'', LStr dat] \<in> set (openai_error_log e)"
    by (simp_all add: openai_error_log_response)
qed

text \<open>A provider that answers 429 with a body, one whose content is not JSON, and one
  whose content decodes.\<close>

theorem detected_generation_failure_is_generic_witness:
  "reply (post_roast
      (demo_world\<lparr>openai_create :=
         \<lambda>b. Inl (ProviderError ''429'' (Some (429, ''{quota exceeded}'', ''x-request-id'')))\<rparr>)
      [] (JStr ''https://example.com'') JUndefined) = Some (json_error 500 unexpected)
   \<and> logs (post_roast
      (demo_world\<lparr>openai_create :=
         \<lambda>b. Inl (ProviderError ''429'' (Some (429, ''{quota exceeded}'', ''x-request-id'')))\<rparr>)
      [] (JStr ''https://example.com'') JUndefined)
      = [[LStr ''\<newline>--- FULL OPENAI API ERROR LOG ---''],
         [LStr ''STATUS:'', LNum 429], [LStr ''DATA:'', LStr ''{quota exceeded}''],
         [LStr ''HEADERS:'', LStr ''x-request-id''],
         [LStr ''--- END OF ERROR LOG ---\<newline>''],
         processing_error analysis_failed]
   \<and> reply (post_roast (demo_world\<lparr>openai_create := \<lambda>b. Inr (Some ''Sorry, I cannot'')\<rparr>)
        [] (JStr ''https://example.com'') JUndefined) = Some (json_error 500 unexpected)
   \<and> reply (post_roast demo_world [] (JStr ''https://example.com'') JUndefined)
       = Some (Response 200 [] (RowBody
           (new_row demo_world ''https://example.com'' JUndefined (JObj [])
              ''public/3b241101-e2bb-4255-8caf-4136c566a962.webp'')))"
proof -
  note t1 = detected_generation_failure_is_generic
      [where w = "demo_world\<lparr>openai_create :=
             \<lambda>b. Inl (ProviderError ''429'' (Some (429, ''{quota exceeded}'', ''x-request-id'')))\<rparr>"
         and u = "''https://example.com''" and ?c1.0 = "[ApiFlash ''https://example.com'']"
         and ?l1.0 = "[]" and buf = "''RIFF''" and img = "''RIFF''" and store = "[]"
         and visitorId = JUndefined
         and e = "ProviderError ''429'' (Some (429, ''{quota exceeded}'', ''x-request-id''))",
       THEN conjunct1]
  note t2 = detected_generation_failure_is_generic
      [where w = "demo_world\<lparr>openai_create := \<lambda>b. Inr (Some ''Sorry, I cannot'')\<rparr>"
         and u = "''https://example.com''" and ?c1.0 = "[ApiFlash ''https://example.com'']"
         and ?l1.0 = "[]" and buf = "''RIFF''" and img = "''RIFF''" and store = "[]"
         and visitorId = JUndefined and c = "Some ''Sorry, I cannot''"
         and m = "''Unexpected token''",
       THEN conjunct2, THEN conjunct1]
  note t3 = detected_generation_failure_is_generic
      [where w = demo_world
         and u = "''https://example.com''" and ?c1.0 = "[ApiFlash ''https://example.com'']"
         and ?l1.0 = "[]" and buf = "''RIFF''" and img = "''RIFF''" and store = "[]"
         and visitorId = JUndefined and c = "Some ''{}''" and j = "JObj []"
         and p = "''public/3b241101-e2bb-4255-8caf-4136c566a962.webp''",
       THEN conjunct2, THEN conjunct2, THEN conjunct1]
  have a: "reply (post_roast
      (demo_world\<lparr>openai_create :=
         \<lambda>b. Inl (ProviderError ''429'' (Some (429, ''{quota exceeded}'', ''x-request-id'')))\<rparr>)
      [] (JStr ''https://example.com'') JUndefined) = Some (json_error 500 unexpected)
    \<and> logs (post_roast
      (demo_world\<lparr>openai_create :=
         \<lambda>b. Inl (ProviderError ''429'' (Some (429, ''{quota exceeded}'', ''x-request-id'')))\<rparr>)
      [] (JStr ''https://example.com'') JUndefined)
      = [[LStr ''\<newline>--- FULL OPENAI API ERROR LOG ---''],
         [LStr ''STATUS:'', LNum 429], [LStr ''DATA:'', LStr ''{quota exceeded}''],
         [LStr ''HEADERS:'', LStr ''x-request-id''],
         [LStr ''--- END OF ERROR LOG ---\<newline>''],
         processing_error analysis_failed]"
    using t1 by (simp add: demo_world_def validURL_def getScreenshotFromAPI_def
        openai_error_log_def)
  have b: "reply (post_roast (demo_world\<lparr>openai_create := \<lambda>b. Inr (Some ''Sorry, I cannot'')\<rparr>)
        [] (JStr ''https://example.com'') JUndefined) = Some (json_error 500 unexpected)"
    using t2 by (simp add: demo_world_def validURL_def getScreenshotFromAPI_def
        parse_content_def)
  have c: "reply (post_roast demo_world [] (JStr ''https://example.com'') JUndefined)
       = Some (Response 200 [] (RowBody
           (new_row demo_world ''https://example.com'' JUndefined (JObj [])
              ''public/3b241101-e2bb-4255-8caf-4136c566a962.webp'')))"
    using t3 by (simp add: demo_world_def validURL_def getScreenshotFromAPI_def
        parse_content_def upload_path_def new_row_def)
  from a b c show ?thesis by blast
qed

text \<open>
  Claim C8 as stated fails for a validation failure: a content that decodes to the empty
  object, or a \<^verbatim>\<open>null\<close> content, fails the schema, and the caller receives status 200 with
  a body that holds the provider's content, not a generic message.
\<close>

theorem schema_failure_answered_200_counterexample:
  "\<not> critique_schema_ok (JObj []) \<and> \<not> critique_schema_ok JNull
   \<and> reply (post_roast demo_world [] (JStr ''https://example.com'') JUndefined)
       = Some (Response 200 [] (RowBody
           \<lparr>row_id = ''3b241101-e2bb-4255-8caf-4136c566a962'', row_url = ''https://example.com'',
            roast_json = JObj [],
            screenshot_url =
              ''https://cdn.example/public/3b241101-e2bb-4255-8caf-4136c566a962.webp'',
            visitor_id = JNull, created_at = 1000\<rparr>))
   \<and> reply (post_roast (demo_world\<lparr>openai_create := \<lambda>b. Inr None\<rparr>) []
        (JStr ''https://example.com'') JUndefined)
       = Some (Response 200 [] (RowBody
           \<lparr>row_id = ''3b241101-e2bb-4255-8caf-4136c566a962'', row_url = ''https://example.com'',
            roast_json = JNull,
            screenshot_url =
              ''https://cdn.example/public/3b241101-e2bb-4255-8caf-4136c566a962.webp'',
            visitor_id = JNull, created_at = 1000\<rparr>))"
  by (simp add: critique_schema_ok_def conforms_roastSchema_def
        demo_world_def post_roast_def validURL_def roast_try_def
        getScreenshotFromAPI_def roast_commit_def analyzeImage_def upload_path_def
        parse_content_def Let_def new_row_def)

subsection \<open>The rate limiter\<close>

lemma limiter_counted:
  "\<not> skip w ip \<Longrightarrow>
   limiter w st now ip =
     (let (n, reset) =
            (case st ip of
               None \<Rightarrow> (1, now + windowMs)
             | Some (k, r) \<Rightarrow> (if now < r then (k + 1, r) else (1, now + windowMs)))
      in (st(ip \<mapsto> (n, reset)),
          if n > max_requests
          then Inl (Response 429
                 [(''RateLimit-Limit'', max_requests), (''RateLimit-Remaining'', max_requests - n),
                  (''RateLimit-Reset'', (reset - now + 999) div 1000)] (ErrorBody slow_down))
          else Inr [(''RateLimit-Limit'', max_requests), (''RateLimit-Remaining'', max_requests - n),
                    (''RateLimit-Reset'', (reset - now + 999) div 1000)]))"
  by (simp add: limiter_def Let_def split: prod.splits)

lemma admit_first:
  "\<not> skip w ip \<Longrightarrow> st ip = None \<Longrightarrow>
   admissions w st ((t, ip) # rest) = True # admissions w (st(ip \<mapsto> (1, t + windowMs))) rest"
  by (simp add: limiter_counted max_requests_def)

lemma admit_in_window:
  "\<not> skip w ip \<Longrightarrow> st ip = Some (k, r) \<Longrightarrow> t < r \<Longrightarrow>
   admissions w st ((t, ip) # rest) =
     (k + 1 \<le> max_requests) # admissions w (st(ip \<mapsto> (k + 1, r))) rest"
  by (simp add: limiter_counted)

lemma admit_new_window:
  "\<not> skip w ip \<Longrightarrow> st ip = Some (k, r) \<Longrightarrow> r \<le> t \<Longrightarrow>
   admissions w st ((t, ip) # rest) = True # admissions w (st(ip \<mapsto> (1, t + windowMs))) rest"
  by (simp add: limiter_counted max_requests_def)

lemma four_requests:
  assumes s: "\<not> skip w ip" and f: "st ip = None" and o: "t1 \<le> t2" "t2 \<le> t3" "t3 \<le> t4"
  shows "admissions w st [(t1, ip), (t2, ip), (t3, ip), (t4, ip)]
           = [True, True, True, t1 + windowMs \<le> t4]"
proof -
  have pos: "0 < windowMs" by (simp add: windowMs_def)
  show ?thesis
  proof (cases "t2 < t1 + windowMs")
    case in2: True
    show ?thesis
    proof (cases "t3 < t1 + windowMs")
      case in3: True
      show ?thesis
      proof (cases "t4 < t1 + windowMs")
        case True
        with s f in2 in3 show ?thesis
          by (simp add: admit_first admit_in_window max_requests_def del: admissions.simps(2))
      next
        case False
        with s f in2 in3 show ?thesis
          by (simp add: admit_first admit_in_window admit_new_window max_requests_def
              del: admissions.simps(2))
      qed
    next
      case out3: False
      with o have t4: "t1 + windowMs \<le> t4" by simp
      show ?thesis
      proof (cases "t4 < t3 + windowMs")
        case True
        with s f in2 out3 t4 show ?thesis
          by (simp add: admit_first admit_in_window admit_new_window max_requests_def
              del: admissions.simps(2))
      next
        case False
        with s f in2 out3 t4 show ?thesis
          by (simp add: admit_first admit_in_window admit_new_window max_requests_def
              del: admissions.simps(2))
      qed
    qed
  next
    case out2: False
    with o have t4: "t1 + windowMs \<le> t4" by simp
    show ?thesis
    proof (cases "t3 < t2 + windowMs")
      case in3: True
      show ?thesis
      proof (cases "t4 < t2 + windowMs")
        case True
        with s f out2 in3 t4 show ?thesis
          by (simp add: admit_first admit_in_window admit_new_window max_requests_def
              del: admissions.simps(2))
      next
        case False
        with s f out2 in3 t4 show ?thesis
          by (simp add: admit_first admit_in_window admit_new_window max_requests_def
              del: admissions.simps(2))
      qed
    next
      case out3: False
      show ?thesis
      proof (cases "t4 < t3 + windowMs")
        case True
        with s f out2 out3 t4 show ?thesis
          by (simp add: admit_first admit_in_window admit_new_window max_requests_def
              del: admissions.simps(2))
      next
        case False
        with s f out2 out3 t4 show ?thesis
          by (simp add: admit_first admit_in_window admit_new_window max_requests_def
              del: admissions.simps(2))
      qed
    qed
  qed
qed

lemma admissions_Cons:
  "admissions w st ((t, a) # rs) =
     (case snd (limiter w st t a) of Inl r \<Rightarrow> False | Inr hs \<Rightarrow> True)
     # admissions w (fst (limiter w st t a)) rs"
  by (simp split: prod.splits sum.splits)

lemma limiter_other_address: "a \<noteq> ip \<Longrightarrow> fst (limiter w st t a) ip = st ip"
  by (simp add: limiter_def Let_def split: prod.splits)

lemma decisions_in_window:
  "\<not> skip w ip \<Longrightarrow> st ip = Some (k, r) \<Longrightarrow> \<forall>q \<in> set rs. snd q = ip \<longrightarrow> fst q < r \<Longrightarrow>
   decisions_of ip rs (admissions w st rs) =
     map (\<lambda>i. k + i < max_requests) [0..<length (filter (\<lambda>q. snd q = ip) rs)]"
proof (induction rs arbitrary: st k)
  case Nil
  then show ?case by (simp add: decisions_of_def)
next
  case (Cons q rs)
  obtain t a where q: "q = (t, a)" by (cases q)
  show ?case
  proof (cases "a = ip")
    case True
    with Cons.prems q have t: "t < r" by simp
    let ?st = "st(ip \<mapsto> (k + 1, r))"
    have step: "admissions w st ((t, ip) # rs) = (k + 1 \<le> max_requests) # admissions w ?st rs"
      using Cons.prems(1,2) t by (rule admit_in_window)
    have "decisions_of ip rs (admissions w ?st rs) =
            map (\<lambda>i. (k + 1) + i < max_requests) [0..<length (filter (\<lambda>q. snd q = ip) rs)]"
      using Cons.prems by (intro Cons.IH) simp_all
    then show ?thesis
      using True q step
      by (simp add: decisions_of_def map_upt_Suc del: admissions.simps(2) upt_Suc)
         (simp add: less_eq_Suc_le)
  next
    case False
    let ?st = "fst (limiter w st t a)"
    have "?st ip = Some (k, r)"
      using False Cons.prems(2) by (simp add: limiter_other_address)
    then have "decisions_of ip rs (admissions w ?st rs) =
            map (\<lambda>i. k + i < max_requests) [0..<length (filter (\<lambda>q. snd q = ip) rs)]"
      using Cons.prems by (intro Cons.IH) simp_all
    then show ?thesis
      using False q
      by (simp add: admissions_Cons decisions_of_def del: admissions.simps(2))
  qed
qed

lemma count_below: "length (filter (\<lambda>i. k + i < m) [0..<n]) = min n (m - k)"
  by (induction n) auto

lemma admitted_in_window:
  assumes "\<not> skip w ip" "st ip = Some (k, r)" "\<forall>q \<in> set rs. snd q = ip \<longrightarrow> fst q < r"
  shows "length (filter (\<lambda>b. b) (decisions_of ip rs (admissions w st rs)))
           = min (length (filter (\<lambda>q. snd q = ip) rs)) (max_requests - k)"
proof -
  have "length (filter (\<lambda>b. b) (map (\<lambda>i. k + i < max_requests) [0..<n]))
          = min n (max_requests - k)" for n
    by (simp add: filter_map comp_def count_below)
  moreover have "decisions_of ip rs (admissions w st rs) =
     map (\<lambda>i. k + i < max_requests) [0..<length (filter (\<lambda>q. snd q = ip) rs)]"
    using assms by (rule decisions_in_window)
  ultimately show ?thesis by simp
qed

lemma decisions_from_opening:
  assumes s: "\<not> skip w ip" and o: "st ip = None \<or> (\<exists>k r. st ip = Some (k, r) \<and> r \<le> t0)"
    and i: "\<forall>q \<in> set rs. snd q = ip \<longrightarrow> fst q < t0 + windowMs"
  shows "decisions_of ip ((t0, ip) # rs) (admissions w st ((t0, ip) # rs)) =
     map (\<lambda>i. i < max_requests) [0..<Suc (length (filter (\<lambda>q. snd q = ip) rs))]"
proof -
  let ?st = "st(ip \<mapsto> (1, t0 + windowMs))"
  have step: "admissions w st ((t0, ip) # rs) = True # admissions w ?st rs"
    using s o by (auto simp: admit_first admit_new_window simp del: admissions.simps(2))
  have "decisions_of ip rs (admissions w ?st rs) =
          map (\<lambda>i. 1 + i < max_requests) [0..<length (filter (\<lambda>q. snd q = ip) rs)]"
    using s i by (intro decisions_in_window) simp_all
  then show ?thesis
    using step
    by (simp add: decisions_of_def map_upt_Suc max_requests_def
        del: admissions.simps(2) upt_Suc)
qed


text \<open>
  Claim C7, for the limiter as section 4.4 of the specification describes it, with the
  options of the source: a window of 15 minutes and at most 3 requests. For an address
  that is not on the allow-list, in a window that a request opens (the address has no
  counter, or its window has ended), the first three of its requests pass and every
  later one in that window is refused, however many there are and whatever other
  addresses do in between: at most 3 are admitted. In a running window with \<open>k\<close> hits,
  exactly \<open>3 - k\<close> more pass. Of four requests, the fourth passes exactly when it comes at
  or after the end of the window the first one opened. A request on \<^verbatim>\<open>POST /roast\<close> that
  finds three or more hits in the running window is answered 429 with the fixed message
  and the limit, remaining and reset metadata; the window stays as it is and the handler
  does not run (no call, no log line, the store unchanged). A request at or after the
  end of the window is admitted and opens a new window. An address on the allow-list
  passes without being counted, and the counter of an address is not touched by the
  requests of another.
\<close>

theorem limiter_fixed_window:
  "windowMs = 15 * 60 * 1000 \<and> max_requests = 3
   \<and> (\<not> skip w ip \<and> (st ip = None \<or> (\<exists>k r. st ip = Some (k, r) \<and> r \<le> t0))
        \<and> (\<forall>q \<in> set rs. snd q = ip \<longrightarrow> fst q < t0 + windowMs)
      \<longrightarrow> decisions_of ip ((t0, ip) # rs) (admissions w st ((t0, ip) # rs))
            = map (\<lambda>i. i < 3) [0..<Suc (length (filter (\<lambda>q. snd q = ip) rs))]
          \<and> length (filter (\<lambda>b. b)
               (decisions_of ip ((t0, ip) # rs) (admissions w st ((t0, ip) # rs)))) \<le> 3)
   \<and> (\<not> skip w ip \<and> st ip = Some (k, r) \<and> (\<forall>q \<in> set rs. snd q = ip \<longrightarrow> fst q < r)
      \<longrightarrow> length (filter (\<lambda>b. b) (decisions_of ip rs (admissions w st rs)))
            = min (length (filter (\<lambda>q. snd q = ip) rs)) (3 - k))
   \<and> (\<not> skip w ip \<and> st ip = None \<and> t1 \<le> t2 \<and> t2 \<le> t3 \<and> t3 \<le> t4
      \<longrightarrow> admissions w st [(t1, ip), (t2, ip), (t3, ip), (t4, ip)]
            = [True, True, True, t1 + windowMs \<le> t4])
   \<and> (\<not> skip w ip \<and> st ip = Some (k, reset) \<and> 3 \<le> k \<and> now < reset
      \<longrightarrow> serve w st store now ip (PostRoast v visitorId) =
            (st(ip \<mapsto> (k + 1, reset)),
             \<lparr>reply = Some (Response 429
                 [(''RateLimit-Limit'', 3), (''RateLimit-Remaining'', 0),
                  (''RateLimit-Reset'', (reset - now + 999) div 1000)] (ErrorBody slow_down)),
              calls = [], logs = [], db = store\<rparr>))
   \<and> (\<not> skip w ip \<and> st ip = Some (k, reset) \<and> reset \<le> now
      \<longrightarrow> limiter w st now ip =
            (st(ip \<mapsto> (1, now + windowMs)),
             Inr [(''RateLimit-Limit'', 3), (''RateLimit-Remaining'', 2),
                  (''RateLimit-Reset'', 900)]))
   \<and> (skip w ip \<longrightarrow> limiter w st now ip = (st, Inr []))
   \<and> (ip' \<noteq> ip \<longrightarrow> fst (limiter w st now ip') ip = st ip)"
proof (intro conjI impI)
  show "windowMs = 15 * 60 * 1000" by (simp add: windowMs_def)
  show "max_requests = 3" by (simp add: max_requests_def)
next
  assume h: "\<not> skip w ip \<and> (st ip = None \<or> (\<exists>k r. st ip = Some (k, r) \<and> r \<le> t0))
        \<and> (\<forall>q \<in> set rs. snd q = ip \<longrightarrow> fst q < t0 + windowMs)"
  then have d: "decisions_of ip ((t0, ip) # rs) (admissions w st ((t0, ip) # rs))
            = map (\<lambda>i. i < max_requests) [0..<Suc (length (filter (\<lambda>q. snd q = ip) rs))]"
    by (intro decisions_from_opening) blast+
  then show "decisions_of ip ((t0, ip) # rs) (admissions w st ((t0, ip) # rs))
            = map (\<lambda>i. i < 3) [0..<Suc (length (filter (\<lambda>q. snd q = ip) rs))]"
    by (simp add: max_requests_def)
  have "length (filter (\<lambda>b. b) (map (\<lambda>i. 0 + i < max_requests) [0..<n])) = min n (max_requests - 0)"
    for n
    unfolding filter_map comp_def length_map by (rule count_below)
  then have "length (filter (\<lambda>b. b) (map (\<lambda>i. i < max_requests) [0..<n])) \<le> 3" for n
    by (simp add: max_requests_def)
  with d show "length (filter (\<lambda>b. b)
               (decisions_of ip ((t0, ip) # rs) (admissions w st ((t0, ip) # rs)))) \<le> 3"
    by (simp del: admissions.simps(2) upt_Suc)
next
  assume "\<not> skip w ip \<and> st ip = Some (k, r) \<and> (\<forall>q \<in> set rs. snd q = ip \<longrightarrow> fst q < r)"
  then have "length (filter (\<lambda>b. b) (decisions_of ip rs (admissions w st rs)))
            = min (length (filter (\<lambda>q. snd q = ip) rs)) (max_requests - k)"
    by (intro admitted_in_window) blast+
  then show "length (filter (\<lambda>b. b) (decisions_of ip rs (admissions w st rs)))
            = min (length (filter (\<lambda>q. snd q = ip) rs)) (3 - k)"
    by (simp add: max_requests_def)
next
  assume "\<not> skip w ip \<and> st ip = None \<and> t1 \<le> t2 \<and> t2 \<le> t3 \<and> t3 \<le> t4"
  then have "\<not> skip w ip" "st ip = None" "t1 \<le> t2" "t2 \<le> t3" "t3 \<le> t4"
    by simp_all
  then show "admissions w st [(t1, ip), (t2, ip), (t3, ip), (t4, ip)]
            = [True, True, True, t1 + windowMs \<le> t4]"
    by (rule four_requests)
next
  assume "\<not> skip w ip \<and> st ip = Some (k, reset) \<and> 3 \<le> k \<and> now < reset"
  then show "serve w st store now ip (PostRoast v visitorId) =
            (st(ip \<mapsto> (k + 1, reset)),
             \<lparr>reply = Some (Response 429
                 [(''RateLimit-Limit'', 3), (''RateLimit-Remaining'', 0),
                  (''RateLimit-Reset'', (reset - now + 999) div 1000)] (ErrorBody slow_down)),
              calls = [], logs = [], db = store\<rparr>)"
    by (simp add: serve_def limiter_counted max_requests_def)
next
  assume "\<not> skip w ip \<and> st ip = Some (k, reset) \<and> reset \<le> now"
  then show "limiter w st now ip =
            (st(ip \<mapsto> (1, now + windowMs)),
             Inr [(''RateLimit-Limit'', 3), (''RateLimit-Remaining'', 2),
                  (''RateLimit-Reset'', 900)])"
    by (simp add: limiter_counted max_requests_def windowMs_def)
next
  assume "skip w ip"
  then show "limiter w st now ip = (st, Inr [])" by (simp add: limiter_def)
next
  assume "ip' \<noteq> ip"
  then show "fst (limiter w st now ip') ip = st ip"
    by (rule limiter_other_address)
qed

text \<open>Eight requests of one address in eight seconds, with a request of another address
  in between; a fourth request one millisecond before the end of the window and one at
  its end; a request at seven hits; an allow-listed address at fifty hits.\<close>

theorem limiter_fixed_window_witness:
  "decisions_of ''203.0.113.7''
     [(0, ''203.0.113.7''), (1000, ''203.0.113.7''), (1500, ''198.51.100.9''),
      (2000, ''203.0.113.7''), (3000, ''203.0.113.7''), (4000, ''203.0.113.7''),
      (5000, ''203.0.113.7''), (6000, ''203.0.113.7''), (7000, ''203.0.113.7'')]
     (admissions demo_world (\<lambda>a. None)
        [(0, ''203.0.113.7''), (1000, ''203.0.113.7''), (1500, ''198.51.100.9''),
         (2000, ''203.0.113.7''), (3000, ''203.0.113.7''), (4000, ''203.0.113.7''),
         (5000, ''203.0.113.7''), (6000, ''203.0.113.7''), (7000, ''203.0.113.7'')])
     = [True, True, True, False, False, False, False, False]
   \<and> admissions demo_world (\<lambda>a. None)
     [(0, ''203.0.113.7''), (1000, ''203.0.113.7''), (2000, ''203.0.113.7''),
      (899999, ''203.0.113.7'')] = [True, True, True, False]
   \<and> admissions demo_world (\<lambda>a. None)
     [(0, ''203.0.113.7''), (1000, ''203.0.113.7''), (2000, ''203.0.113.7''),
      (900000, ''203.0.113.7'')] = [True, True, True, True]
   \<and> serve demo_world ((\<lambda>a. None)(''203.0.113.7'' \<mapsto> (7, 900000))) [] 2500 ''203.0.113.7''
       (PostRoast (JStr ''https://example.com'') JUndefined) =
       (((\<lambda>a. None)(''203.0.113.7'' \<mapsto> (7, 900000)))(''203.0.113.7'' \<mapsto> (8, 900000)),
        \<lparr>reply = Some (Response 429
            [(''RateLimit-Limit'', 3), (''RateLimit-Remaining'', 0), (''RateLimit-Reset'', 898)]
            (ErrorBody slow_down)),
         calls = [], logs = [], db = []\<rparr>)
   \<and> limiter (demo_world\<lparr>whitelist := [''198.51.100.1'']\<rparr>)
       ((\<lambda>a. None)(''198.51.100.1'' \<mapsto> (50, 900000))) 2500 ''198.51.100.1''
       = ((\<lambda>a. None)(''198.51.100.1'' \<mapsto> (50, 900000)), Inr [])"
proof -
  have s: "\<not> skip demo_world ''203.0.113.7''"
    by (simp add: skip_def demo_world_def)
  have k: "skip (demo_world\<lparr>whitelist := [''198.51.100.1'']\<rparr>) ''198.51.100.1''"
    by (simp add: skip_def)
  have e: "decisions_of ''203.0.113.7''
     [(0, ''203.0.113.7''), (1000, ''203.0.113.7''), (1500, ''198.51.100.9''),
      (2000, ''203.0.113.7''), (3000, ''203.0.113.7''), (4000, ''203.0.113.7''),
      (5000, ''203.0.113.7''), (6000, ''203.0.113.7''), (7000, ''203.0.113.7'')]
     (admissions demo_world (\<lambda>a. None)
        [(0, ''203.0.113.7''), (1000, ''203.0.113.7''), (1500, ''198.51.100.9''),
         (2000, ''203.0.113.7''), (3000, ''203.0.113.7''), (4000, ''203.0.113.7''),
         (5000, ''203.0.113.7''), (6000, ''203.0.113.7''), (7000, ''203.0.113.7'')])
     = [True, True, True, False, False, False, False, False]"
    using s limiter_fixed_window
      [where w = demo_world and ip = "''203.0.113.7''" and st = "\<lambda>a. None" and ?t0.0 = 0
         and rs = "[(1000, ''203.0.113.7''), (1500, ''198.51.100.9''),
           (2000, ''203.0.113.7''), (3000, ''203.0.113.7''), (4000, ''203.0.113.7''),
           (5000, ''203.0.113.7''), (6000, ''203.0.113.7''), (7000, ''203.0.113.7'')]",
       THEN conjunct2, THEN conjunct2, THEN conjunct1]
    by (simp add: windowMs_def upt_rec del: admissions.simps(2))
  have a: "admissions demo_world (\<lambda>a. None)
     [(0, ''203.0.113.7''), (1000, ''203.0.113.7''), (2000, ''203.0.113.7''),
      (899999, ''203.0.113.7'')] = [True, True, True, False]"
    using s limiter_fixed_window
      [where w = demo_world and ip = "''203.0.113.7''" and st = "\<lambda>a. None"
         and ?t1.0 = 0 and ?t2.0 = 1000 and ?t3.0 = 2000 and ?t4.0 = 899999,
       THEN conjunct2, THEN conjunct2, THEN conjunct2, THEN conjunct2, THEN conjunct1]
    by (simp add: windowMs_def del: admissions.simps(2))
  have b: "admissions demo_world (\<lambda>a. None)
     [(0, ''203.0.113.7''), (1000, ''203.0.113.7''), (2000, ''203.0.113.7''),
      (900000, ''203.0.113.7'')] = [True, True, True, True]"
    using s limiter_fixed_window
      [where w = demo_world and ip = "''203.0.113.7''" and st = "\<lambda>a. None"
         and ?t1.0 = 0 and ?t2.0 = 1000 and ?t3.0 = 2000 and ?t4.0 = 900000,
       THEN conjunct2, THEN conjunct2, THEN conjunct2, THEN conjunct2, THEN conjunct1]
    by (simp add: windowMs_def del: admissions.simps(2))
  have c: "serve demo_world ((\<lambda>a. None)(''203.0.113.7'' \<mapsto> (7, 900000))) [] 2500 ''203.0.113.7''
       (PostRoast (JStr ''https://example.com'') JUndefined) =
       (((\<lambda>a. None)(''203.0.113.7'' \<mapsto> (7, 900000)))(''203.0.113.7'' \<mapsto> (8, 900000)),
        \<lparr>reply = Some (Response 429
            [(''RateLimit-Limit'', 3), (''RateLimit-Remaining'', 0), (''RateLimit-Reset'', 898)]
            (ErrorBody slow_down)),
         calls = [], logs = [], db = []\<rparr>)"
    using s limiter_fixed_window
      [where w = demo_world and ip = "''203.0.113.7''"
         and st = "(\<lambda>a. None)(''203.0.113.7'' \<mapsto> (7, 900000))" and k = 7
         and reset = 900000 and now = 2500 and store = "[]"
         and v = "JStr ''https://example.com''" and visitorId = JUndefined,
       THEN conjunct2, THEN conjunct2, THEN conjunct2, THEN conjunct2, THEN conjunct2,
       THEN conjunct1]
    by simp
  have d: "limiter (demo_world\<lparr>whitelist := [''198.51.100.1'']\<rparr>)
       ((\<lambda>a. None)(''198.51.100.1'' \<mapsto> (50, 900000))) 2500 ''198.51.100.1''
       = ((\<lambda>a. None)(''198.51.100.1'' \<mapsto> (50, 900000)), Inr [])"
    using k limiter_fixed_window
      [where w = "demo_world\<lparr>whitelist := [''198.51.100.1'']\<rparr>" and ip = "''198.51.100.1''"
         and st = "(\<lambda>a. None)(''198.51.100.1'' \<mapsto> (50, 900000))" and now = 2500,
       THEN conjunct2, THEN conjunct2, THEN conjunct2, THEN conjunct2, THEN conjunct2,
       THEN conjunct2, THEN conjunct2, THEN conjunct1]
    by simp
  from e a b c d show ?thesis by (simp del: admissions.simps(2))
qed

subsection \<open>The routes without the limiter\<close>

lemma get_status:
  "is_get req \<Longrightarrow> reply (snd (serve w st store now ip req)) = Some r \<Longrightarrow>
   status r \<in> {200, 400, 404, 500}"
  by (cases req)
     (auto simp: serve_def get_root_def get_roasts_def get_roast_def get_roasts_mine_def
        json_error_def split: option.splits if_splits list.splits)

text \<open>
  Claim C10. A request on a \<^verbatim>\<open>GET\<close> route leaves the counters as they are, its outcome
  is the same whatever the counters, the time and the client address, and its status is
  never 429; \<^verbatim>\<open>GET /\<close> of \<^verbatim>\<open>app.mjs\<close> answers 200 whatever the counters.
\<close>

theorem get_routes_bypass_limiter:
  "(is_get req
      \<longrightarrow> fst (serve w st store now ip req) = st
          \<and> snd (serve w st store now ip req) = snd (serve w st' store now' ip' req)
          \<and> (\<forall>r. reply (snd (serve w st store now ip req)) = Some r \<longrightarrow> status r \<noteq> 429))
   \<and> serve_app w st now ip AppGetRoot =
       (st, \<lparr>reply = Some (Response 200 [] StatusOk), calls = [], logs = []\<rparr>)"
proof (intro conjI impI allI)
  assume g: "is_get req"
  then show "fst (serve w st store now ip req) = st"
    by (cases req) (simp_all add: serve_def)
  from g show "snd (serve w st store now ip req) = snd (serve w st' store now' ip' req)"
    by (cases req) (simp_all add: serve_def)
  fix r assume "reply (snd (serve w st store now ip req)) = Some r"
  with g have "status r \<in> {200, 400, 404, 500}" by (rule get_status)
  then show "status r \<noteq> 429" by auto
next
  show "serve_app w st now ip AppGetRoot =
       (st, \<lparr>reply = Some (Response 200 [] StatusOk), calls = [], logs = []\<rparr>)"
    by (simp add: serve_app_def)
qed

text \<open>An address with three hits in the running window: \<^verbatim>\<open>GET /roasts\<close> is answered
  200, \<^verbatim>\<open>POST /roast\<close> is answered 429.\<close>

theorem get_routes_bypass_limiter_witness:
  "serve demo_world ((\<lambda>a. None)(''203.0.113.7'' \<mapsto> (3, 900000))) [] 2500 ''203.0.113.7'' GetRoasts
     = ((\<lambda>a. None)(''203.0.113.7'' \<mapsto> (3, 900000)),
        \<lparr>reply = Some (Response 200 [] (RowsBody [])), calls = [DbSelect], logs = [], db = []\<rparr>)
   \<and> status (the (reply (snd (serve demo_world ((\<lambda>a. None)(''203.0.113.7'' \<mapsto> (3, 900000))) []
        2500 ''203.0.113.7'' (PostRoast (JStr ''https://example.com'') JUndefined))))) = 429"
  using get_routes_bypass_limiter
      [where req = GetRoasts and w = demo_world
         and st = "(\<lambda>a. None)(''203.0.113.7'' \<mapsto> (3, 900000))" and store = "[]"
         and now = 2500 and ip = "''203.0.113.7''"]
  by (simp add: serve_def get_roasts_def demo_world_def newest_first_def limiter_def skip_def
      max_requests_def Let_def)

subsection \<open>The Records of a visitor\<close>

text \<open>When the query reports no error, the answer is 200 with the visitor's rows, the
  newest first, whether there are any or not.\<close>

lemma get_roasts_mine_answer:
  "visitorId \<noteq> [] \<Longrightarrow> isUUID w visitorId \<Longrightarrow> db_select_error w = None \<Longrightarrow>
   reply (get_roasts_mine w store visitorId) =
     Some (Response 200 []
       (RowsBody (newest_first (filter (\<lambda>r. visitor_id r = JStr visitorId) store))))"
  by (simp add: get_roasts_mine_def)

lemma newest_first_descending:
  "sorted (rev (map created_at (newest_first rows)))"
  by (simp add: newest_first_def rev_map [symmetric])

lemma newest_first_same_rows:
  "set (newest_first rows) = set rows \<and> length (newest_first rows) = length rows"
  by (simp add: newest_first_def)

text \<open>
  Claim C9 at a visitor without Records: \<^verbatim>\<open>GET /roasts/mine/{visitorId}\<close> with a
  well-formed identifier and an empty store is answered 200 with the empty list. The
  404 "No roasts found for this visitor." is sent only when the query reports an error.
\<close>

theorem no_roasts_answers_200:
  "isUUID demo_world ''3b241101-e2bb-4255-8caf-4136c566a962''
   \<and> get_roasts_mine demo_world [] ''3b241101-e2bb-4255-8caf-4136c566a962'' =
       \<lparr>reply = Some (Response 200 [] (RowsBody [])), calls = [DbSelect], logs = [], db = []\<rparr>"
  by (simp add: get_roasts_mine_def demo_world_def newest_first_def)

end
